theory Spec2Isabelle
  imports Main "HOL-Library.Word"
begin

section \<open>Session-based authentication handler (package auth)\<close>

text \<open>
  A shallow embedding of the package \<open>auth\<close>: \<open>NewHandler\<close>, \<open>Authorize\<close>,
  \<open>SaveUserSession\<close>, \<open>Authenticate\<close>, \<open>AuthenticateRequest\<close> and \<open>Logout\<close>.
  The collaborators of the package (the \<open>Auther\<close>, the \<open>sessions.Store\<close>, the
  error handlers, the downstream handler, \<open>http.Redirect\<close> and the clock) are
  modelled at their boundary: they are functions handed to the model. Every call the
  package makes to the verifier, the store or a handler is recorded, in order, in
  the list \<open>calls\<close> of the world; what \<open>net/http\<close> writes is in the response.
  The reading of the clock, \<open>time.Now()\<close>, is the argument \<open>now\<close>. A run-time
  panic (a nil function, interface or pointer is used) is the result \<open>None\<close>.
\<close>

subsection \<open>Time\<close>

text \<open>
  \<open>time.Time\<close> is an instant, here the number of nanoseconds since the epoch.
  \<open>time.Duration\<close> is an \<open>int64\<close> count of nanoseconds, so its negation wraps
  around. \<open>t.Add(d)\<close> is exact for the instants a clock returns, and
  \<open>t.After(u)\<close> compares instants.
\<close>

type_synonym Time = int
type_synonym Duration = "64 word"

definition Add :: "Time \<Rightarrow> Duration \<Rightarrow> Time" where
  "Add t d = t + sint d"

definition After :: "Time \<Rightarrow> Time \<Rightarrow> bool" where
  "After t u \<longleftrightarrow> u < t"

definition Minute :: Duration where
  "Minute = 60000000000"

subsection \<open>Values, errors, status codes\<close>

text \<open>
  \<open>interface{}\<close>: the dynamically typed values that session keys and session
  values range over. \<open>SessionKey\<close> is the package's own type \<open>sessionKey\<close>, distinct
  from every other type, so \<open>SessionKey 1\<close> and \<open>IntVal 1\<close> are different keys.
\<close>

datatype any = Nil | TimeVal Time | IntVal int | StringVal string | SessionKey nat

text \<open>
  The constant block starts with \<open>defaultSessionName\<close> (iota 0), so
  \<open>userKey\<close> is 1 and \<open>userTimeout\<close> is 2.
\<close>

definition defaultSessionName :: string where
  "defaultSessionName = ''AuthSession''"

definition userKey :: any where
  "userKey = SessionKey 1"

definition userTimeout :: any where
  "userTimeout = SessionKey 2"

text \<open>
  Errors are compared by identity in Go: the two sentinels are their own
  constructors, every other error is \<open>New\<close> with its message.
\<close>

datatype error = ErrBadLogin | ErrNotAuthorized | New string

fun Error :: "error \<Rightarrow> string" where
  "Error ErrBadLogin = ''Bad Login''"
| "Error ErrNotAuthorized = ''Not Authorized''"
| "Error (New msg) = msg"

definition StatusSeeOther :: int where
  "StatusSeeOther = 303"

definition StatusBadRequest :: int where
  "StatusBadRequest = 400"

definition StatusUnauthorized :: int where
  "StatusUnauthorized = 401"

definition StatusInternalServerError :: int where
  "StatusInternalServerError = 500"

subsection \<open>Requests and responses\<close>

text \<open>
  Of a request the package reads the method and the outcome of \<open>r.ParseForm()\<close>:
  an error, or the form values.
\<close>

record request =
  Method :: string
  ParseForm :: "error + (string \<rightharpoonup> string list)"

text \<open>\<open>url.Values.Get\<close>: the first value of the key, the empty string without one.\<close>

definition Form_Get :: "(string \<rightharpoonup> string list) \<Rightarrow> string \<Rightarrow> string" where
  "Form_Get form k = (case form k of None \<Rightarrow> [] | Some [] \<Rightarrow> [] | Some (v # vs) \<Rightarrow> v)"

text \<open>
  A response writer: the status (\<open>None\<close> until the header is written), the
  \<open>Location\<close> header, the body and the \<open>Set-Cookie\<close> headers.
\<close>

record response =
  status :: "int option"
  location :: "string option"
  body :: string
  set_cookie :: "string list"

definition WriteHeader :: "response \<Rightarrow> int \<Rightarrow> response" where
  "WriteHeader w c = (case status w of None \<Rightarrow> w\<lparr>status := Some c\<rparr> | Some c' \<Rightarrow> w)"

text \<open>
  \<open>http.Error\<close> writes the header with the code and prints the message as one line
  of the body.
\<close>

definition http_Error :: "response \<Rightarrow> string \<Rightarrow> int \<Rightarrow> response" where
  "http_Error w msg c = (WriteHeader w c)\<lparr>body := body w @ msg @ [CHR 0x0A]\<rparr>"

text \<open>
  \<open>http.Redirect\<close> resolves its target against the path of the request, cleans and
  escapes it with the \<open>net/url\<close> and \<open>path\<close> packages, sets the \<open>Location\<close>
  header, writes the header and, for a GET, a short note to the body. It is a
  collaborator like the store: a function handed to the model, named
  \<open>http_Redirect\<close> wherever it occurs.
\<close>

type_synonym Redirect = "response \<Rightarrow> request \<Rightarrow> string \<Rightarrow> int \<Rightarrow> response"

subsection \<open>Sessions and the session store\<close>

record Options =
  MaxAge :: int

record session =
  IsNew :: bool
  Values :: "any \<rightharpoonup> any"
  Options :: Options

text \<open>
  \<open>store.Get\<close> returns a pointer to the session of the request, or an error. The
  session objects live in the heap of the world; a pointer without an object there
  is the nil pointer. \<open>session.Save\<close> hands the session to its store, the store of
  the handler, which reads the session, writes to the response and may fail. The
  \<open>Values\<close> and the \<open>Options\<close> of a session are never nil, as
  \<open>sessions.NewSession\<close> builds both.
\<close>

type_synonym sref = nat

record store =
  Get :: "request \<Rightarrow> string \<Rightarrow> error + sref"
  Save :: "request \<Rightarrow> response \<Rightarrow> session \<Rightarrow> error option \<times> response"

datatype event =
    CallGet string
  | CallCheck string string
  | CallSave session
  | CallErrorHandler error int
  | CallNotAuthorizedHandler
  | CallNext

record world =
  heap :: "sref \<rightharpoonup> session"
  resp :: response
  calls :: "event list"

subsection \<open>The handler\<close>

text \<open>
  \<open>Auther.Check\<close> returns an identity and an error. The error handler and the
  http handlers write to the response. A field of the handler that holds a nil
  interface or a nil function is \<open>None\<close>.
\<close>

type_synonym Auther = "string \<Rightarrow> string \<Rightarrow> any \<times> error option"
type_synonym ErrorHandler = "response \<Rightarrow> request \<Rightarrow> error \<Rightarrow> int \<Rightarrow> response"
type_synonym http_Handler = "response \<Rightarrow> request \<Rightarrow> response"

record Handler =
  auther :: "Auther option"
  store :: "store option"
  errorHandler :: "ErrorHandler option"
  notAuthorizedHandler :: "http_Handler option"
  redirLanding :: string
  redirLogout :: string
  lifetime :: Duration
  sessionName :: string

text \<open>An option mutates the handler under construction and may return an error.\<close>

type_synonym Option = "Handler \<Rightarrow> Handler \<times> error option"

text \<open>\<open>var ah Handler\<close>: the zero value.\<close>

definition zero_Handler :: Handler where
  "zero_Handler = \<lparr>auther = None, store = None, errorHandler = None,
     notAuthorizedHandler = None, redirLanding = [], redirLogout = [],
     lifetime = 0, sessionName = []\<rparr>"

text \<open>The loop over the options: the first error ends the construction.\<close>

fun run_options :: "Option list \<Rightarrow> Handler \<Rightarrow> error + Handler" where
  "run_options [] ah = Inr ah"
| "run_options (opt # options) ah =
     (case opt ah of
        (ah', Some err) \<Rightarrow> Inl err
      | (ah', None) \<Rightarrow> run_options options ah')"

definition NewHandler :: "Auther option \<Rightarrow> Option list \<Rightarrow> error + Handler" where
  "NewHandler a options =
     (case run_options options (zero_Handler\<lparr>auther := a\<rparr>) of
        Inl err \<Rightarrow> Inl err
      | Inr ah \<Rightarrow>
          if store ah = None then Inl (New ''please set a session.Store'')
          else
            let ah1 = (if lifetime ah = 0 then ah\<lparr>lifetime := 5 * Minute\<rparr> else ah);
                ah2 = (if redirLanding ah1 = [] then ah1\<lparr>redirLanding := ''/''\<rparr> else ah1);
                ah3 = (if redirLogout ah2 = [] then ah2\<lparr>redirLogout := redirLanding ah2\<rparr>
                       else ah2);
                ah4 = (if sessionName ah3 = [] then ah3\<lparr>sessionName := defaultSessionName\<rparr>
                       else ah3);
                eh = (case errorHandler ah4 of
                        None \<Rightarrow> (\<lambda>w r err c. http_Error w (Error err) c)
                      | Some h \<Rightarrow> h);
                ah5 = ah4\<lparr>errorHandler := Some eh\<rparr>;
                ah6 = (if notAuthorizedHandler ah5 = None
                       then ah5\<lparr>notAuthorizedHandler :=
                              Some (\<lambda>w r. eh w r ErrNotAuthorized StatusUnauthorized)\<rparr>
                       else ah5)
            in Inr ah6)"

text \<open>The call \<open>ah.errorHandler(w, r, err, code)\<close>.\<close>

definition errorHandler_call :: "Handler \<Rightarrow> request \<Rightarrow> error \<Rightarrow> int \<Rightarrow> world \<Rightarrow> world option" where
  "errorHandler_call ah r err c wd =
     (case errorHandler ah of
        None \<Rightarrow> None
      | Some eh \<Rightarrow>
          Some (wd\<lparr>resp := eh (resp wd) r err c,
                   calls := calls wd @ [CallErrorHandler err c]\<rparr>))"

definition SaveUserSession ::
  "Handler \<Rightarrow> Time \<Rightarrow> request \<Rightarrow> any \<Rightarrow> world \<Rightarrow> (error option \<times> world) option" where
  "SaveUserSession ah now r userData wd =
     (case store ah of
        None \<Rightarrow> None
      | Some st \<Rightarrow>
          let wd1 = wd\<lparr>calls := calls wd @ [CallGet (sessionName ah)]\<rparr> in
          (case Get st r (sessionName ah) of
             Inl err \<Rightarrow> Some (Some err, wd1)
           | Inr p \<Rightarrow>
               (case heap wd1 p of
                  None \<Rightarrow> None
                | Some s \<Rightarrow>
                    let s1 = s\<lparr>Values := (Values s)(userKey \<mapsto> userData)\<rparr>;
                        s2 = s1\<lparr>Values := (Values s1)(userTimeout \<mapsto>
                                  TimeVal (Add now (lifetime ah)))\<rparr>;
                        saved = Save st r (resp wd1) s2
                    in Some (fst saved,
                             wd1\<lparr>heap := (heap wd1)(p \<mapsto> s2), resp := snd saved,
                                 calls := calls wd1 @ [CallSave s2]\<rparr>))))"

definition Authorize :: "Redirect \<Rightarrow> Handler \<Rightarrow> Time \<Rightarrow> request \<Rightarrow> world \<Rightarrow> world option" where
  "Authorize http_Redirect ah now r wd =
     (if Method r \<noteq> ''POST''
      then errorHandler_call ah r (New ''method should be POST'') StatusBadRequest wd
      else
        (case ParseForm r of
           Inl err \<Rightarrow> errorHandler_call ah r err StatusInternalServerError wd
         | Inr form \<Rightarrow>
             let user = Form_Get form ''user''; pass = Form_Get form ''pass'' in
             if user = [] \<or> pass = []
             then errorHandler_call ah r ErrBadLogin StatusBadRequest wd
             else
               (case auther ah of
                  None \<Rightarrow> None
                | Some check \<Rightarrow>
                    let wd1 = wd\<lparr>calls := calls wd @ [CallCheck user pass]\<rparr> in
                    (case check user pass of
                       (ident, Some err) \<Rightarrow>
                         errorHandler_call ah r err
                           (if err = ErrBadLogin then StatusBadRequest
                            else StatusInternalServerError) wd1
                     | (ident, None) \<Rightarrow>
                         (case SaveUserSession ah now r ident wd1 of
                            None \<Rightarrow> None
                          | Some (Some err, wd2) \<Rightarrow>
                              errorHandler_call ah r err StatusInternalServerError wd2
                          | Some (None, wd2) \<Rightarrow>
                              Some (wd2\<lparr>resp := http_Redirect (resp wd2) r
                                          (redirLanding ah) StatusSeeOther\<rparr>))))))"

definition AuthenticateRequest ::
  "Handler \<Rightarrow> Time \<Rightarrow> request \<Rightarrow> world \<Rightarrow> ((any \<times> error option) \<times> world) option" where
  "AuthenticateRequest ah now r wd =
     (case store ah of
        None \<Rightarrow> None
      | Some st \<Rightarrow>
          let wd1 = wd\<lparr>calls := calls wd @ [CallGet (sessionName ah)]\<rparr> in
          (case Get st r (sessionName ah) of
             Inl err \<Rightarrow> Some ((Nil, Some err), wd1)
           | Inr p \<Rightarrow>
               (case heap wd1 p of
                  None \<Rightarrow> None
                | Some s \<Rightarrow>
                    if IsNew s then Some ((Nil, Some ErrNotAuthorized), wd1)
                    else
                      (case Values s userKey of
                         None \<Rightarrow> Some ((Nil, Some ErrNotAuthorized), wd1)
                       | Some user \<Rightarrow>
                           (case Values s userTimeout of
                              None \<Rightarrow> Some ((Nil, Some ErrNotAuthorized), wd1)
                            | Some t \<Rightarrow>
                                (case t of
                                   TimeVal tout \<Rightarrow>
                                     if After now tout
                                     then Some ((Nil, Some ErrNotAuthorized), wd1)
                                     else Some ((user, None), wd1)
                                 | _ \<Rightarrow> Some ((Nil, Some ErrNotAuthorized), wd1)))))))"

definition Authenticate ::
  "Handler \<Rightarrow> http_Handler \<Rightarrow> Time \<Rightarrow> request \<Rightarrow> world \<Rightarrow> world option" where
  "Authenticate ah next now r wd =
     (case AuthenticateRequest ah now r wd of
        None \<Rightarrow> None
      | Some ((ident, Some err), wd1) \<Rightarrow>
          (case notAuthorizedHandler ah of
             None \<Rightarrow> None
           | Some h \<Rightarrow>
               Some (wd1\<lparr>resp := h (resp wd1) r,
                         calls := calls wd1 @ [CallNotAuthorizedHandler]\<rparr>))
      | Some ((ident, None), wd1) \<Rightarrow>
          Some (wd1\<lparr>resp := next (resp wd1) r, calls := calls wd1 @ [CallNext]\<rparr>))"

definition Logout :: "Redirect \<Rightarrow> Handler \<Rightarrow> Time \<Rightarrow> request \<Rightarrow> world \<Rightarrow> world option" where
  "Logout http_Redirect ah now r wd =
     (case store ah of
        None \<Rightarrow> None
      | Some st \<Rightarrow>
          let wd1 = wd\<lparr>calls := calls wd @ [CallGet (sessionName ah)]\<rparr> in
          (case Get st r (sessionName ah) of
             Inl err \<Rightarrow> errorHandler_call ah r err StatusInternalServerError wd1
           | Inr p \<Rightarrow>
               (case heap wd1 p of
                  None \<Rightarrow> None
                | Some s \<Rightarrow>
                    let s1 = s\<lparr>Values := (Values s)(userTimeout \<mapsto>
                                 TimeVal (Add now (- lifetime ah)))\<rparr>;
                        s2 = s1\<lparr>Options := (Options s1)\<lparr>MaxAge := - 1\<rparr>\<rparr>;
                        saved = Save st r (resp wd1) s2;
                        wd2 = wd1\<lparr>heap := (heap wd1)(p \<mapsto> s2), resp := snd saved,
                                  calls := calls wd1 @ [CallSave s2]\<rparr>
                    in (case fst saved of
                          Some err \<Rightarrow> errorHandler_call ah r err StatusInternalServerError wd2
                        | None \<Rightarrow>
                            Some (wd2\<lparr>resp := http_Redirect (resp wd2) r
                                        (redirLogout ah) StatusSeeOther\<rparr>)))))"

subsection \<open>The authentication invariant\<close>

text \<open>
  The condition under which \<open>AuthenticateRequest\<close> accepts a loaded session: it is
  not new, it has an identity and its expiry is a time that the clock is not after.
\<close>

definition authenticated :: "session \<Rightarrow> Time \<Rightarrow> bool" where
  "authenticated s now \<longleftrightarrow>
     \<not> IsNew s \<and> Values s userKey \<noteq> None \<and>
     (case Values s userTimeout of Some (TimeVal t) \<Rightarrow> \<not> After now t | _ \<Rightarrow> False)"

text \<open>
  The invariant in the words of the specification, for comparison with the code:
  not new, identity key present, expiry key present and a timestamp, and
  \<open>now < expiry\<close>.
\<close>

definition spec_authenticated :: "session \<Rightarrow> Time \<Rightarrow> bool" where
  "spec_authenticated s now \<longleftrightarrow>
     \<not> IsNew s \<and> Values s userKey \<noteq> None \<and>
     (case Values s userTimeout of Some (TimeVal t) \<Rightarrow> now < t | _ \<Rightarrow> False)"

subsection \<open>A concrete configuration\<close>

text \<open>
  A store that hands out the session at address 0 and writes one cookie on
  \<open>Save\<close>, a store whose \<open>Get\<close> fails, a store whose \<open>Save\<close> fails, the verifier of
  the package's tests (\<open>testUser\<close>/\<open>testPassw\<close> is identity 23), and a handler
  with them.
\<close>

definition example_store :: store where
  "example_store =
     \<lparr>Get = (\<lambda>r name. Inr 0),
      Save = (\<lambda>r w s. (None, w\<lparr>set_cookie := set_cookie w @ [''AuthSession'']\<rparr>))\<rparr>"

definition failing_Get_store :: store where
  "failing_Get_store =
     \<lparr>Get = (\<lambda>r name. Inl (New ''the value is not valid'')),
      Save = (\<lambda>r w s. (None, w))\<rparr>"

definition failing_Save_store :: store where
  "failing_Save_store =
     \<lparr>Get = (\<lambda>r name. Inr 0),
      Save = (\<lambda>r w s. (Some (New ''the value is too long''), w))\<rparr>"

definition example_check :: Auther where
  "example_check u p =
     (if u = ''testUser'' \<and> p = ''testPassw'' then (IntVal 23, None)
      else (Nil, Some ErrBadLogin))"

definition example_handler :: Handler where
  "example_handler =
     \<lparr>auther = Some example_check, store = Some example_store,
      errorHandler = Some (\<lambda>w r err c. http_Error w (Error err) c),
      notAuthorizedHandler =
        Some (\<lambda>w r. http_Error w (Error ErrNotAuthorized) StatusUnauthorized),
      redirLanding = ''/landingRedir'', redirLogout = ''/landingRedir'',
      lifetime = 5 * Minute, sessionName = ''AuthSession''\<rparr>"

definition new_session :: session where
  "new_session = \<lparr>IsNew = True, Values = Map.empty, Options = \<lparr>MaxAge = 0\<rparr>\<rparr>"

definition example_session :: session where
  "example_session =
     \<lparr>IsNew = False, Values = [userKey \<mapsto> IntVal 23, userTimeout \<mapsto> TimeVal 100],
      Options = \<lparr>MaxAge = 0\<rparr>\<rparr>"

definition empty_response :: response where
  "empty_response = \<lparr>status = None, location = None, body = [], set_cookie = []\<rparr>"

definition new_world :: world where
  "new_world = \<lparr>heap = [0 \<mapsto> new_session], resp = empty_response, calls = []\<rparr>"

definition example_world :: world where
  "example_world = \<lparr>heap = [0 \<mapsto> example_session], resp = empty_response, calls = []\<rparr>"

definition example_get :: request where
  "example_get = \<lparr>Method = ''GET'', ParseForm = Inr Map.empty\<rparr>"

definition example_post :: request where
  "example_post =
     \<lparr>Method = ''POST'',
      ParseForm = Inr [''user'' \<mapsto> [''testUser''], ''pass'' \<mapsto> [''testPassw'']]\<rparr>"

text \<open>
  Further requests, verifiers, sessions, options and handlers: a POST whose form does
  not parse, a POST without fields, a POST with a wrong login, a verifier that fails,
  a verifier that accepts with a nil identity, the session as \<open>Authorize\<close> saves it
  at time 1000, the session as \<open>Logout\<close> saves it at time 2000, options that set the
  store, the lifetime, the landing path and the session name, an option that fails,
  the handlers \<open>NewHandler\<close> builds from the store option alone and from all four
  setting options, a handler whose lifetime is the least \<open>int64\<close> and the session
  its \<open>Logout\<close> saves at time 2000, and a downstream handler.
\<close>

definition bad_form_post :: request where
  "bad_form_post = \<lparr>Method = ''POST'', ParseForm = Inl (New ''invalid URL escape'')\<rparr>"

definition empty_post :: request where
  "empty_post = \<lparr>Method = ''POST'', ParseForm = Inr Map.empty\<rparr>"

definition false_post :: request where
  "false_post =
     \<lparr>Method = ''POST'',
      ParseForm = Inr [''user'' \<mapsto> [''false''], ''pass'' \<mapsto> [''false'']]\<rparr>"

definition failing_check :: Auther where
  "failing_check u p = (Nil, Some (New ''backend down''))"

definition nil_check :: Auther where
  "nil_check u p = (Nil, None)"

definition login_session :: session where
  "login_session =
     \<lparr>IsNew = True,
      Values = [userKey \<mapsto> IntVal 23, userTimeout \<mapsto> TimeVal 300000001000],
      Options = \<lparr>MaxAge = 0\<rparr>\<rparr>"

definition nil_session :: session where
  "nil_session =
     \<lparr>IsNew = True,
      Values = [userKey \<mapsto> Nil, userTimeout \<mapsto> TimeVal 300000001000],
      Options = \<lparr>MaxAge = 0\<rparr>\<rparr>"

definition logout_session :: session where
  "logout_session =
     \<lparr>IsNew = False,
      Values = [userKey \<mapsto> IntVal 23, userTimeout \<mapsto> TimeVal (- 299999998000)],
      Options = \<lparr>MaxAge = - 1\<rparr>\<rparr>"

definition logged_in_world :: world where
  "logged_in_world =
     \<lparr>heap = [0 \<mapsto> login_session\<lparr>IsNew := False\<rparr>], resp = empty_response, calls = []\<rparr>"

definition store_option :: "store \<Rightarrow> Option" where
  "store_option s ah = (ah\<lparr>store := Some s\<rparr>, None)"

definition failing_option :: Option where
  "failing_option ah = (ah, Some (New ''nil ErrorHandler passed''))"

definition default_handler :: Handler where
  "default_handler =
     \<lparr>auther = Some example_check, store = Some example_store,
      errorHandler = Some (\<lambda>w r err c. http_Error w (Error err) c),
      notAuthorizedHandler =
        Some (\<lambda>w r. http_Error w (Error ErrNotAuthorized) StatusUnauthorized),
      redirLanding = ''/'', redirLogout = ''/'',
      lifetime = 5 * Minute, sessionName = ''AuthSession''\<rparr>"

text \<open>
  A \<open>Redirect\<close> for the examples: what \<open>net/http\<close> does with status 303 and a
  rooted, clean ASCII target (nothing to resolve, clean or escape) on a response
  without content type. The target becomes the \<open>Location\<close>, the header is written,
  and a GET gets the note.
\<close>

definition example_Redirect :: Redirect where
  "example_Redirect w r url c =
     (let w1 = WriteHeader (w\<lparr>location := Some url\<rparr>) c
      in if Method r = ''GET''
         then w1\<lparr>body := body w1 @ ''<a href='' @ [CHR 0x22] @ url @ [CHR 0x22] @
                  ''>See Other</a>.'' @ [CHR 0x0A, CHR 0x0A]\<rparr>
         else w1)"

definition profile_page :: http_Handler where
  "profile_page w r = (WriteHeader w 200)\<lparr>body := body w @ ''profile''\<rparr>"

definition lifetime_option :: "Duration \<Rightarrow> Option" where
  "lifetime_option d ah = (ah\<lparr>lifetime := d\<rparr>, None)"

definition landing_option :: "string \<Rightarrow> Option" where
  "landing_option path ah = (ah\<lparr>redirLanding := path\<rparr>, None)"

definition name_option :: "string \<Rightarrow> Option" where
  "name_option name ah = (ah\<lparr>sessionName := name\<rparr>, None)"

definition configured_handler :: Handler where
  "configured_handler =
     \<lparr>auther = Some example_check, store = Some example_store,
      errorHandler = Some (\<lambda>w r err c. http_Error w (Error err) c),
      notAuthorizedHandler =
        Some (\<lambda>w r. http_Error w (Error ErrNotAuthorized) StatusUnauthorized),
      redirLanding = ''/home'', redirLogout = ''/home'',
      lifetime = 10 * Minute, sessionName = ''sid''\<rparr>"

definition least_lifetime_handler :: Handler where
  "least_lifetime_handler = default_handler\<lparr>lifetime := - 9223372036854775808\<rparr>"

definition wrapped_session :: session where
  "wrapped_session =
     \<lparr>IsNew = False,
      Values = [userKey \<mapsto> IntVal 23, userTimeout \<mapsto> TimeVal (- 9223372036854773808)],
      Options = \<lparr>MaxAge = - 1\<rparr>\<rparr>"

lemmas ex_defs = example_handler_def example_store_def failing_Get_store_def
  failing_Save_store_def example_check_def new_session_def example_session_def
  empty_response_def new_world_def example_world_def example_get_def example_post_def
  login_session_def userKey_def userTimeout_def Add_def After_def Minute_def Form_Get_def
  http_Error_def example_Redirect_def WriteHeader_def

lemmas ex_defs2 = ex_defs logged_in_world_def nil_check_def nil_session_def logout_session_def

lemmas ex_defs3 = ex_defs2 store_option_def failing_option_def default_handler_def
  profile_page_def zero_Handler_def defaultSessionName_def StatusUnauthorized_def

lemmas option_defs = store_option_def failing_option_def lifetime_option_def
  landing_option_def name_option_def zero_Handler_def

lemmas ex_defs4 = ex_defs3 least_lifetime_handler_def wrapped_session_def

section \<open>Auxiliary facts\<close>

text \<open>
  The negation of a duration is exact unless the duration is the least \<open>int64\<close>,
  which is its own negation. The loop over the options returns the handler that
  the options, applied in order, leave (a \<open>foldl\<close>) if none of them returns an
  error, and the error of the first that does. The other facts follow each function
  along one of its paths.
\<close>

lemma sint_neg_Duration:
  fixes d :: Duration
  assumes "sint d \<noteq> - (2 ^ 63)"
  shows "sint (- d) = - sint d"
proof -
  have lo: "- (2 ^ 63) \<le> sint d" and hi: "sint d < 2 ^ 63"
    using sint_ge [of d] sint_lt [of d] by simp_all
  have "sint (- d) = signed_take_bit 63 (- sint d)"
    by (simp add: sint_word_minus)
  also have "\<dots> = - sint d"
    using lo hi assms by (intro signed_take_bit_int_eq_self) simp_all
  finally show ?thesis .
qed


lemma errorHandler_call_Some:
  "errorHandler ah = Some eh \<Longrightarrow>
   errorHandler_call ah r err c wd =
     Some (wd\<lparr>resp := eh (resp wd) r err c, calls := calls wd @ [CallErrorHandler err c]\<rparr>)"
  by (simp add: errorHandler_call_def)

lemma SaveUserSession_Get_error:
  "store ah = Some st \<Longrightarrow> Get st r (sessionName ah) = Inl err \<Longrightarrow>
   SaveUserSession ah now r userData wd =
     Some (Some err, wd\<lparr>calls := calls wd @ [CallGet (sessionName ah)]\<rparr>)"
  by (simp add: SaveUserSession_def)

lemma SaveUserSession_Get_ok:
  "store ah = Some st \<Longrightarrow> Get st r (sessionName ah) = Inr p \<Longrightarrow> heap wd p = Some s \<Longrightarrow>
   s1 = s\<lparr>Values := (Values s)(userKey \<mapsto> userData,
                                 userTimeout \<mapsto> TimeVal (Add now (lifetime ah)))\<rparr> \<Longrightarrow>
   Save st r (resp wd) s1 = (res, w') \<Longrightarrow>
   SaveUserSession ah now r userData wd =
     Some (res, wd\<lparr>heap := (heap wd)(p \<mapsto> s1), resp := w',
                 calls := calls wd @ [CallGet (sessionName ah), CallSave s1]\<rparr>)"
  by (simp add: SaveUserSession_def Let_def)

lemma Authorize_bad_method:
  "Method r \<noteq> ''POST'' \<Longrightarrow>
   Authorize http_Redirect ah now r wd =
     errorHandler_call ah r (New ''method should be POST'') StatusBadRequest wd"
  by (simp add: Authorize_def)

lemma Authorize_bad_form:
  "Method r = ''POST'' \<Longrightarrow> ParseForm r = Inl err \<Longrightarrow>
   Authorize http_Redirect ah now r wd = errorHandler_call ah r err StatusInternalServerError wd"
  by (simp add: Authorize_def)

lemma Authorize_empty:
  "Method r = ''POST'' \<Longrightarrow> ParseForm r = Inr form \<Longrightarrow>
   Form_Get form ''user'' = [] \<or> Form_Get form ''pass'' = [] \<Longrightarrow>
   Authorize http_Redirect ah now r wd = errorHandler_call ah r ErrBadLogin StatusBadRequest wd"
  by (simp add: Authorize_def Let_def)

lemma Authorize_checked:
  "Method r = ''POST'' \<Longrightarrow> ParseForm r = Inr form \<Longrightarrow>
   Form_Get form ''user'' = user \<Longrightarrow> Form_Get form ''pass'' = pass \<Longrightarrow>
   user \<noteq> [] \<Longrightarrow> pass \<noteq> [] \<Longrightarrow> auther ah = Some check \<Longrightarrow>
   Authorize http_Redirect ah now r wd =
     (case check user pass of
        (ident, Some err) \<Rightarrow>
          errorHandler_call ah r err
            (if err = ErrBadLogin then StatusBadRequest else StatusInternalServerError)
            (wd\<lparr>calls := calls wd @ [CallCheck user pass]\<rparr>)
      | (ident, None) \<Rightarrow>
          (case SaveUserSession ah now r ident (wd\<lparr>calls := calls wd @ [CallCheck user pass]\<rparr>) of
             None \<Rightarrow> None
           | Some (Some err, wd2) \<Rightarrow> errorHandler_call ah r err StatusInternalServerError wd2
           | Some (None, wd2) \<Rightarrow>
               Some (wd2\<lparr>resp := http_Redirect (resp wd2) r (redirLanding ah) StatusSeeOther\<rparr>)))"
  by (simp add: Authorize_def Let_def)

lemma Authorize_Check_error:
  assumes "Method r = ''POST''" "ParseForm r = Inr form"
    "Form_Get form ''user'' = user" "Form_Get form ''pass'' = pass"
    "user \<noteq> []" "pass \<noteq> []" "auther ah = Some check" "errorHandler ah = Some eh"
    "check user pass = (ident, Some err)"
  shows "Authorize http_Redirect ah now r wd =
     Some (wd\<lparr>resp := eh (resp wd) r err (if err = ErrBadLogin then 400 else 500),
              calls := calls wd @ [CallCheck user pass,
                CallErrorHandler err (if err = ErrBadLogin then 400 else 500)]\<rparr>)"
  using assms
  by (simp add: Authorize_checked [OF assms(1-7)] errorHandler_call_Some
      StatusBadRequest_def StatusInternalServerError_def)

lemma Authorize_Get_error:
  assumes "Method r = ''POST''" "ParseForm r = Inr form"
    "Form_Get form ''user'' = user" "Form_Get form ''pass'' = pass"
    "user \<noteq> []" "pass \<noteq> []" "auther ah = Some check" "errorHandler ah = Some eh"
    "check user pass = (ident, None)"
    "store ah = Some st" "Get st r (sessionName ah) = Inl err"
  shows "Authorize http_Redirect ah now r wd =
     Some (wd\<lparr>resp := eh (resp wd) r err 500,
              calls := calls wd @ [CallCheck user pass, CallGet (sessionName ah),
                CallErrorHandler err 500]\<rparr>)"
  using assms
  by (simp add: Authorize_checked [OF assms(1-7)] errorHandler_call_Some
      SaveUserSession_Get_error StatusInternalServerError_def)

lemma Authorize_Get_ok:
  assumes "Method r = ''POST''" "ParseForm r = Inr form"
    "Form_Get form ''user'' = user" "Form_Get form ''pass'' = pass"
    "user \<noteq> []" "pass \<noteq> []" "auther ah = Some check"
    "check user pass = (ident, None)"
    "store ah = Some st" "Get st r (sessionName ah) = Inr p" "heap wd p = Some s"
    "s1 = s\<lparr>Values := (Values s)(userKey \<mapsto> ident,
                                   userTimeout \<mapsto> TimeVal (Add now (lifetime ah)))\<rparr>"
    "Save st r (resp wd) s1 = (res, w')"
  shows "Authorize http_Redirect ah now r wd =
     (case res of
        Some err \<Rightarrow>
          errorHandler_call ah r err StatusInternalServerError
            (wd\<lparr>heap := (heap wd)(p \<mapsto> s1), resp := w',
               calls := calls wd @ [CallCheck user pass, CallGet (sessionName ah),
                 CallSave s1]\<rparr>)
      | None \<Rightarrow>
          Some (wd\<lparr>heap := (heap wd)(p \<mapsto> s1),
                resp := http_Redirect w' r (redirLanding ah) StatusSeeOther,
                calls := calls wd @ [CallCheck user pass, CallGet (sessionName ah),
                  CallSave s1]\<rparr>))"
proof -
  have "SaveUserSession ah now r ident (wd\<lparr>calls := calls wd @ [CallCheck user pass]\<rparr>) =
      Some (res, wd\<lparr>heap := (heap wd)(p \<mapsto> s1), resp := w',
         calls := calls wd @ [CallCheck user pass, CallGet (sessionName ah), CallSave s1]\<rparr>)"
    using assms(9-13)
    by (simp add: SaveUserSession_Get_ok [where s = s and p = p and st = st and ?s1.0 = s1])
  then show ?thesis
    using assms(8) by (simp add: Authorize_checked [OF assms(1-7)] split: option.splits)
qed

lemma Authorize_Save_needs_Check:
  assumes "Authorize http_Redirect ah now r wd = Some wd1" "calls wd1 = calls wd @ evs" "CallSave x \<in> set evs"
  shows "Method r = ''POST'' \<and>
     (\<exists>form check ident. ParseForm r = Inr form \<and> Form_Get form ''user'' \<noteq> [] \<and>
         Form_Get form ''pass'' \<noteq> [] \<and> auther ah = Some check \<and>
         check (Form_Get form ''user'') (Form_Get form ''pass'') = (ident, None))"
  using assms
  by (auto simp: Authorize_def errorHandler_call_def SaveUserSession_def Let_def
      split: if_splits sum.splits option.splits prod.splits)

lemma AuthenticateRequest_loaded:
  "store ah = Some st \<Longrightarrow> Get st r (sessionName ah) = Inr p \<Longrightarrow> heap wd p = Some s \<Longrightarrow>
   \<not> IsNew s \<Longrightarrow> Values s userKey = Some user \<Longrightarrow>
   Values s userTimeout = Some (TimeVal tout) \<Longrightarrow>
   AuthenticateRequest ah now r wd =
     Some (if After now tout then (Nil, Some ErrNotAuthorized) else (user, None),
           wd\<lparr>calls := calls wd @ [CallGet (sessionName ah)]\<rparr>)"
  by (simp add: AuthenticateRequest_def Let_def)

lemma AuthenticateRequest_expired:
  "store ah = Some st \<Longrightarrow> Get st r (sessionName ah) = Inr p \<Longrightarrow> heap wd p = Some s \<Longrightarrow>
   Values s userTimeout = Some (TimeVal tout) \<Longrightarrow> After now tout \<Longrightarrow>
   AuthenticateRequest ah now r wd =
     Some ((Nil, Some ErrNotAuthorized), wd\<lparr>calls := calls wd @ [CallGet (sessionName ah)]\<rparr>)"
  by (simp add: AuthenticateRequest_def Let_def split: option.splits)

lemma AuthenticateRequest_world:
  "AuthenticateRequest ah now r wd = Some (res, wd1) \<Longrightarrow>
   wd1 = wd\<lparr>calls := calls wd @ [CallGet (sessionName ah)]\<rparr>"
  by (auto simp: AuthenticateRequest_def Let_def
      split: option.splits sum.splits any.splits if_splits)

lemma AuthenticateRequest_accepts:
  assumes "store ah = Some st" "AuthenticateRequest ah now r wd = Some ((ident, None), wd1)"
  shows "\<exists>p s tout. Get st r (sessionName ah) = Inr p \<and> heap wd p = Some s \<and> \<not> IsNew s \<and>
           Values s userKey = Some ident \<and> Values s userTimeout = Some (TimeVal tout) \<and>
           \<not> After now tout"
  using assms
  by (auto simp: AuthenticateRequest_def Let_def
      split: option.splits sum.splits any.splits if_splits)

lemma AuthenticateRequest_no_identity:
  "store ah = Some st \<Longrightarrow> Get st r (sessionName ah) = Inr p \<Longrightarrow> heap wd p = Some s \<Longrightarrow>
   Values s userKey = None \<Longrightarrow>
   AuthenticateRequest ah now r wd =
     Some ((Nil, Some ErrNotAuthorized), wd\<lparr>calls := calls wd @ [CallGet (sessionName ah)]\<rparr>)"
  by (simp add: AuthenticateRequest_def Let_def)

lemma login_then_AuthenticateRequest:
  assumes "store ah = Some st"
    and "s1 = s\<lparr>Values := (Values s)(userKey \<mapsto> ident,
                   userTimeout \<mapsto> TimeVal (Add t0 (lifetime ah)))\<rparr>"
    and "Get st r2 (sessionName ah) = Inr p2" and "heap wd2 p2 = Some s2"
    and "\<not> IsNew s2" and "Values s2 = Values s1"
    and "t < Add t0 (lifetime ah)"
  shows "AuthenticateRequest ah t r2 wd2 =
           Some ((ident, None), wd2\<lparr>calls := calls wd2 @ [CallGet (sessionName ah)]\<rparr>)"
proof -
  have "Values s2 userKey = Some ident"
    and "Values s2 userTimeout = Some (TimeVal (Add t0 (lifetime ah)))"
    using assms(2,6) by (simp_all add: userKey_def userTimeout_def)
  then show ?thesis
    using assms(1,3,4,5,7)
    by (simp add: AuthenticateRequest_loaded [where st = st and s = s2] After_def)
qed

lemma Logout_Get_error:
  "store ah = Some st \<Longrightarrow> Get st r (sessionName ah) = Inl err \<Longrightarrow>
   Logout http_Redirect ah now r wd =
     errorHandler_call ah r err StatusInternalServerError
       (wd\<lparr>calls := calls wd @ [CallGet (sessionName ah)]\<rparr>)"
  by (simp add: Logout_def)

lemma Logout_Get_ok:
  "store ah = Some st \<Longrightarrow> Get st r (sessionName ah) = Inr p \<Longrightarrow> heap wd p = Some s \<Longrightarrow>
   s1 = s\<lparr>Values := (Values s)(userTimeout \<mapsto> TimeVal (Add now (- lifetime ah))),
          Options := (Options s)\<lparr>MaxAge := - 1\<rparr>\<rparr> \<Longrightarrow>
   Save st r (resp wd) s1 = (res, w') \<Longrightarrow>
   Logout http_Redirect ah now r wd =
     (case res of
        Some err \<Rightarrow>
          errorHandler_call ah r err StatusInternalServerError
            (wd\<lparr>heap := (heap wd)(p \<mapsto> s1), resp := w',
               calls := calls wd @ [CallGet (sessionName ah), CallSave s1]\<rparr>)
      | None \<Rightarrow>
          Some (wd\<lparr>heap := (heap wd)(p \<mapsto> s1),
                resp := http_Redirect w' r (redirLogout ah) StatusSeeOther,
                calls := calls wd @ [CallGet (sessionName ah), CallSave s1]\<rparr>))"
  by (simp add: Logout_def Let_def split: option.splits)

lemma run_options_append:
  "run_options (pre @ post) ah =
     (case run_options pre ah of Inl err \<Rightarrow> Inl err | Inr ah1 \<Rightarrow> run_options post ah1)"
  by (induction pre arbitrary: ah) (auto split: prod.splits option.splits)

lemma run_options_Inl:
  "run_options options ah = Inl err \<Longrightarrow>
   \<exists>pre opt post ah1 ah2. options = pre @ opt # post \<and> run_options pre ah = Inr ah1 \<and>
      opt ah1 = (ah2, Some err)"
proof (induction options arbitrary: ah)
  case Nil
  then show ?case by simp
next
  case (Cons opt options)
  obtain ah' res where o: "opt ah = (ah', res)"
    by (cases "opt ah")
  show ?case
  proof (cases res)
    case None
    then have "run_options options ah' = Inl err"
      using Cons.prems o by simp
    then obtain pre opt' post ah1 ah2 where "options = pre @ opt' # post"
      and "run_options pre ah' = Inr ah1" and "opt' ah1 = (ah2, Some err)"
      using Cons.IH by blast
    then have "opt # options = (opt # pre) @ opt' # post \<and>
        run_options (opt # pre) ah = Inr ah1 \<and> opt' ah1 = (ah2, Some err)"
      using o None by simp
    then show ?thesis by blast
  next
    case (Some e)
    then have "e = err"
      using Cons.prems o by simp
    then have "opt # options = [] @ opt # options \<and> run_options [] ah = Inr ah \<and>
        opt ah = (ah', Some err)"
      using o Some by simp
    then show ?thesis by blast
  qed
qed

lemma run_options_snoc:
  "run_options (options @ [opt]) ah =
     (case run_options options ah of
        Inl err \<Rightarrow> Inl err
      | Inr ah1 \<Rightarrow> (case snd (opt ah1) of Some err \<Rightarrow> Inl err | None \<Rightarrow> Inr (fst (opt ah1))))"
  by (simp add: run_options_append split: sum.splits prod.splits option.splits)

lemma run_options_Inr_iff:
  "run_options options ah = Inr ah' \<longleftrightarrow>
     (\<forall>j<length options.
        snd ((options ! j) (foldl (\<lambda>h opt. fst (opt h)) ah (take j options))) = None) \<and>
     ah' = foldl (\<lambda>h opt. fst (opt h)) ah options"
proof (induction options arbitrary: ah' rule: rev_induct)
  case Nil
  then show ?case by auto
next
  case (snoc opt options)
  let ?f = "\<lambda>h opt. fst (opt h)"
  let ?ok = "\<forall>j<length options. snd ((options ! j) (foldl ?f ah (take j options))) = None"
  have pre: "(\<forall>j<length (options @ [opt]).
        snd (((options @ [opt]) ! j) (foldl ?f ah (take j (options @ [opt])))) = None) \<longleftrightarrow>
      ?ok \<and> snd (opt (foldl ?f ah options)) = None"
    by (auto simp: All_less_Suc nth_append)
  show ?case
  proof (cases "run_options options ah")
    case (Inl e)
    then have "\<not> ?ok"
      using snoc.IH [of "foldl ?f ah options"] by simp
    then show ?thesis
      using Inl pre by (simp add: run_options_snoc)
  next
    case (Inr h)
    then have "?ok" and "h = foldl ?f ah options"
      using snoc.IH [of h] by simp_all
    then show ?thesis
      using Inr pre by (auto simp: run_options_snoc split: option.splits)
  qed
qed

lemma run_options_fails_at:
  assumes "i < length options"
    and "\<forall>j<i. snd ((options ! j) (foldl (\<lambda>h opt. fst (opt h)) ah (take j options))) = None"
    and "snd ((options ! i) (foldl (\<lambda>h opt. fst (opt h)) ah (take i options))) = Some err"
  shows "run_options options ah = Inl err"
proof -
  let ?f = "\<lambda>h opt. fst (opt h)"
  have split: "options = take i options @ options ! i # drop (Suc i) options"
    using assms(1) by (simp add: id_take_nth_drop)
  have "run_options (take i options) ah = Inr (foldl ?f ah (take i options))"
    using assms(1,2) by (simp add: run_options_Inr_iff min_def)
  then have "run_options (take i options @ options ! i # drop (Suc i) options) ah = Inl err"
    using assms(3)
    by (cases "(options ! i) (foldl ?f ah (take i options))") (simp add: run_options_append)
  then show ?thesis
    using split by simp
qed

lemma run_options_Inl_index:
  assumes "run_options options ah = Inl err"
  shows "\<exists>i<length options.
     (\<forall>j<i. snd ((options ! j) (foldl (\<lambda>h opt. fst (opt h)) ah (take j options))) = None) \<and>
     snd ((options ! i) (foldl (\<lambda>h opt. fst (opt h)) ah (take i options))) = Some err"
proof -
  let ?f = "\<lambda>h opt. fst (opt h)"
  obtain pre opt post ah1 ah2 where o: "options = pre @ opt # post"
    and p: "run_options pre ah = Inr ah1" and e: "opt ah1 = (ah2, Some err)"
    using run_options_Inl [OF assms] by blast
  have ok: "\<forall>j<length pre. snd ((pre ! j) (foldl ?f ah (take j pre))) = None"
    and h: "ah1 = foldl ?f ah pre"
    using p by (simp_all add: run_options_Inr_iff)
  have "length pre < length options"
    using o by simp
  moreover have "\<forall>j<length pre. snd ((options ! j) (foldl ?f ah (take j options))) = None"
    using ok o by (simp add: nth_append)
  moreover have "snd ((options ! length pre) (foldl ?f ah (take (length pre) options))) = Some err"
    using o e h by simp
  ultimately show ?thesis
    by blast
qed

lemma NewHandler_Inr:
  assumes "run_options options (zero_Handler\<lparr>auther := a\<rparr>) = Inr ah" and "store ah \<noteq> None"
  shows "NewHandler a options =
     Inr (ah\<lparr>lifetime := (if lifetime ah = 0 then 5 * Minute else lifetime ah),
             redirLanding := (if redirLanding ah = [] then ''/'' else redirLanding ah),
             redirLogout := (if redirLogout ah = []
                             then (if redirLanding ah = [] then ''/'' else redirLanding ah)
                             else redirLogout ah),
             sessionName := (if sessionName ah = [] then ''AuthSession'' else sessionName ah),
             errorHandler := Some (case errorHandler ah of
                                     None \<Rightarrow> (\<lambda>w r err c. http_Error w (Error err) c)
                                   | Some eh \<Rightarrow> eh),
             notAuthorizedHandler :=
               Some (case notAuthorizedHandler ah of
                       None \<Rightarrow>
                         (\<lambda>w r. (case errorHandler ah of
                                    None \<Rightarrow> (\<lambda>w r err c. http_Error w (Error err) c)
                                  | Some eh \<Rightarrow> eh) w r ErrNotAuthorized 401)
                     | Some h \<Rightarrow> h)\<rparr>)"
  using assms
  by (auto simp: NewHandler_def Let_def defaultSessionName_def StatusUnauthorized_def
      split: option.splits)

section \<open>Properties\<close>

subsection \<open>AuthenticateRequest\<close>

text \<open>
  Claim C1, amended. With a configured store, \<open>AuthenticateRequest\<close> returns the
  error of a failing \<open>store.Get\<close> as it is, with no identity. When the load
  succeeds, it returns the stored identity and no error if the session is not new,
  has the identity key, has the expiry key holding a timestamp, and the clock is not
  after that timestamp (\<open>now \<le> expiry\<close>); in every other case it returns
  \<open>ErrNotAuthorized\<close> and no identity. Its only call is \<open>store.Get\<close>.
\<close>

theorem AuthenticateRequest_spec:
  assumes "store ah = Some st"
  shows "(Get st r (sessionName ah) = Inl err \<longrightarrow>
            AuthenticateRequest ah now r wd =
              Some ((Nil, Some err), wd\<lparr>calls := calls wd @ [CallGet (sessionName ah)]\<rparr>)) \<and>
         (Get st r (sessionName ah) = Inr p \<and> heap wd p = Some s \<longrightarrow>
            (authenticated s now \<longrightarrow>
               (\<exists>user. Values s userKey = Some user \<and>
                  AuthenticateRequest ah now r wd =
                    Some ((user, None),
                          wd\<lparr>calls := calls wd @ [CallGet (sessionName ah)]\<rparr>))) \<and>
            (\<not> authenticated s now \<longrightarrow>
               AuthenticateRequest ah now r wd =
                 Some ((Nil, Some ErrNotAuthorized),
                       wd\<lparr>calls := calls wd @ [CallGet (sessionName ah)]\<rparr>)))"
  using assms
  by (auto simp: AuthenticateRequest_def authenticated_def Let_def
      split: option.splits any.splits)

theorem AuthenticateRequest_spec_witness:
  "store example_handler = Some example_store \<and>
   Get example_store example_get (sessionName example_handler) = Inr 0 \<and>
   heap example_world 0 = Some example_session \<and>
   authenticated example_session 100 \<and>
   AuthenticateRequest example_handler 100 example_get example_world =
     Some ((IntVal 23, None), example_world\<lparr>calls := [CallGet ''AuthSession'']\<rparr>) \<and>
   \<not> authenticated example_session 101 \<and>
   AuthenticateRequest example_handler 101 example_get example_world =
     Some ((Nil, Some ErrNotAuthorized), example_world\<lparr>calls := [CallGet ''AuthSession'']\<rparr>) \<and>
   store (example_handler\<lparr>store := Some failing_Get_store\<rparr>) = Some failing_Get_store \<and>
   Get failing_Get_store example_get ''AuthSession'' = Inl (New ''the value is not valid'') \<and>
   AuthenticateRequest (example_handler\<lparr>store := Some failing_Get_store\<rparr>) 100 example_get
       example_world =
     Some ((Nil, Some (New ''the value is not valid'')),
           example_world\<lparr>calls := [CallGet ''AuthSession'']\<rparr>)"
  using AuthenticateRequest_spec [of example_handler example_store example_get
      "New ''x''" 100 example_world 0 example_session]
    AuthenticateRequest_spec [of example_handler example_store example_get
      "New ''x''" 101 example_world 0 example_session]
    AuthenticateRequest_spec [of "example_handler\<lparr>store := Some failing_Get_store\<rparr>"
      failing_Get_store example_get "New ''the value is not valid''" 100 example_world
      0 example_session]
  by (simp add: authenticated_def example_handler_def example_store_def failing_Get_store_def
      example_world_def example_session_def userKey_def userTimeout_def After_def)

text \<open>
  Claim C1 as stated asks for \<open>now < expiry\<close>. At the instant of the expiry itself
  the invariant in the words of the specification is false, and the code still returns
  the identity: \<open>time.Now().After(tout)\<close> is false there.
\<close>

theorem AuthenticateRequest_strict_counterexample:
  "AuthenticateRequest example_handler 100 example_get example_world =
     Some ((IntVal 23, None), example_world\<lparr>calls := [CallGet ''AuthSession'']\<rparr>) \<and>
   \<not> spec_authenticated example_session 100"
  by (simp add: AuthenticateRequest_def spec_authenticated_def example_handler_def
      example_store_def example_world_def example_session_def userKey_def userTimeout_def
      After_def)

subsection \<open>Login, then authentication\<close>

text \<open>
  Claim C2. Let \<open>Check\<close> return \<open>(ident, nil)\<close> for the posted \<open>user\<close> and
  \<open>pass\<close>, and let \<open>store.Get\<close> and \<open>Save\<close> succeed. Then \<open>Authorize\<close> saves the
  session \<open>s1\<close> and redirects, and \<open>AuthenticateRequest\<close> on a later request whose
  loaded session is not new and carries the values of \<open>s1\<close> returns \<open>ident\<close> and no
  error at every time strictly before the login time plus the lifetime.
\<close>

theorem Authorize_AuthenticateRequest_roundtrip:
  assumes "store ah = Some st" and "auther ah = Some check"
    and "Method r = ''POST''" and "ParseForm r = Inr form"
    and "Form_Get form ''user'' = user" and "Form_Get form ''pass'' = pass"
    and "user \<noteq> []" and "pass \<noteq> []"
    and "check user pass = (ident, None)"
    and "Get st r (sessionName ah) = Inr p" and "heap wd p = Some s"
    and "s1 = s\<lparr>Values := (Values s)(userKey \<mapsto> ident,
                   userTimeout \<mapsto> TimeVal (Add t0 (lifetime ah)))\<rparr>"
    and "Save st r (resp wd) s1 = (None, w')"
    and "Get st r2 (sessionName ah) = Inr p2" and "heap wd2 p2 = Some s2"
    and "\<not> IsNew s2" and "Values s2 = Values s1"
    and "t < t0 + sint (lifetime ah)"
  shows "Authorize http_Redirect ah t0 r wd =
           Some (wd\<lparr>heap := (heap wd)(p \<mapsto> s1),
                    resp := http_Redirect w' r (redirLanding ah) 303,
                    calls := calls wd @ [CallCheck user pass, CallGet (sessionName ah),
                      CallSave s1]\<rparr>) \<and>
         AuthenticateRequest ah t r2 wd2 =
           Some ((ident, None), wd2\<lparr>calls := calls wd2 @ [CallGet (sessionName ah)]\<rparr>)"
proof
  show "Authorize http_Redirect ah t0 r wd =
           Some (wd\<lparr>heap := (heap wd)(p \<mapsto> s1),
                    resp := http_Redirect w' r (redirLanding ah) 303,
                    calls := calls wd @ [CallCheck user pass, CallGet (sessionName ah),
                      CallSave s1]\<rparr>)"
    using Authorize_Get_ok [OF assms(3-8) assms(2) assms(9) assms(1) assms(10-13)]
    by (simp add: StatusSeeOther_def)
  show "AuthenticateRequest ah t r2 wd2 =
           Some ((ident, None), wd2\<lparr>calls := calls wd2 @ [CallGet (sessionName ah)]\<rparr>)"
    using assms(18)
    by (intro login_then_AuthenticateRequest [OF assms(1) assms(12) assms(14-17)])
      (simp add: Add_def)
qed

theorem Authorize_AuthenticateRequest_roundtrip_witness:
  "example_check ''testUser'' ''testPassw'' = (IntVal 23, None) \<and>
   Authorize example_Redirect example_handler 1000 example_post new_world =
     Some (new_world\<lparr>heap := [0 \<mapsto> login_session],
                      resp := empty_response\<lparr>status := Some 303,
                                   location := Some ''/landingRedir'',
                                   set_cookie := [''AuthSession'']\<rparr>,
                      calls := [CallCheck ''testUser'' ''testPassw'', CallGet ''AuthSession'',
                                CallSave login_session]\<rparr>) \<and>
   heap logged_in_world 0 = Some (login_session\<lparr>IsNew := False\<rparr>) \<and>
   (300000000999 :: int) < 1000 + sint (lifetime example_handler) \<and>
   AuthenticateRequest example_handler 300000000999 example_get logged_in_world =
     Some ((IntVal 23, None), logged_in_world\<lparr>calls := [CallGet ''AuthSession'']\<rparr>)"
  using Authorize_AuthenticateRequest_roundtrip [where http_Redirect = example_Redirect and ah = example_handler
      and st = example_store and check = example_check and r = example_post
      and form = "[''user'' \<mapsto> [''testUser''], ''pass'' \<mapsto> [''testPassw'']]"
      and user = "''testUser''" and pass = "''testPassw''" and ident = "IntVal 23"
      and p = 0 and wd = new_world and s = new_session and ?s1.0 = login_session
      and ?t0.0 = 1000 and w' = "empty_response\<lparr>set_cookie := [''AuthSession'']\<rparr>"
      and ?r2.0 = example_get and ?p2.0 = 0 and ?wd2.0 = logged_in_world
      and ?s2.0 = "login_session\<lparr>IsNew := False\<rparr>" and t = 300000000999]
  by (simp add: ex_defs2)

subsection \<open>Logout, then authentication\<close>

text \<open>
  Claim C3. With a positive lifetime, \<open>Logout\<close> sends a failing \<open>store.Get\<close> to the
  error handler with status 500; otherwise it sets the expiry to the logout time
  minus the lifetime and \<open>MaxAge\<close> to \<open>-1\<close>, saves, and sends a failing \<open>Save\<close> to
  the error handler with status 500 or redirects to the logout path with status 303.
  \<open>AuthenticateRequest\<close> on any later request whose loaded session carries the values
  saved by \<open>Logout\<close> returns \<open>ErrNotAuthorized\<close> at every time at or after the logout.
\<close>

theorem Logout_invalidates:
  assumes "store ah = Some st" and "errorHandler ah = Some eh" and "0 < sint (lifetime ah)"
  shows
    "(Get st r (sessionName ah) = Inl err \<longrightarrow>
        Logout http_Redirect ah t0 r wd =
          Some (wd\<lparr>resp := eh (resp wd) r err 500,
                   calls := calls wd @ [CallGet (sessionName ah),
                     CallErrorHandler err 500]\<rparr>)) \<and>
     (Get st r (sessionName ah) = Inr p \<and> heap wd p = Some s \<and>
      s1 = s\<lparr>Values := (Values s)(userTimeout \<mapsto> TimeVal (t0 - sint (lifetime ah))),
             Options := (Options s)\<lparr>MaxAge := - 1\<rparr>\<rparr> \<longrightarrow>
        (Save st r (resp wd) s1 = (Some serr, w') \<longrightarrow>
           Logout http_Redirect ah t0 r wd =
             Some (wd\<lparr>heap := (heap wd)(p \<mapsto> s1), resp := eh w' r serr 500,
                      calls := calls wd @ [CallGet (sessionName ah), CallSave s1,
                        CallErrorHandler serr 500]\<rparr>)) \<and>
        (Save st r (resp wd) s1 = (None, w') \<longrightarrow>
           Logout http_Redirect ah t0 r wd =
             Some (wd\<lparr>heap := (heap wd)(p \<mapsto> s1),
                      resp := http_Redirect w' r (redirLogout ah) 303,
                      calls := calls wd @ [CallGet (sessionName ah), CallSave s1]\<rparr>)) \<and>
        (Get st r2 (sessionName ah) = Inr p2 \<and> heap wd2 p2 = Some s2 \<and>
         Values s2 = Values s1 \<and> t0 \<le> t \<longrightarrow>
           AuthenticateRequest ah t r2 wd2 =
             Some ((Nil, Some ErrNotAuthorized),
                   wd2\<lparr>calls := calls wd2 @ [CallGet (sessionName ah)]\<rparr>)))"
proof -
  have neg: "Add t0 (- lifetime ah) = t0 - sint (lifetime ah)"
    using assms(3) by (simp add: Add_def sint_neg_Duration)
  show ?thesis
  proof (intro conjI impI)
    assume "Get st r (sessionName ah) = Inl err"
    then show "Logout http_Redirect ah t0 r wd =
        Some (wd\<lparr>resp := eh (resp wd) r err 500,
                 calls := calls wd @ [CallGet (sessionName ah), CallErrorHandler err 500]\<rparr>)"
      using assms(1,2)
      by (simp add: Logout_Get_error errorHandler_call_Some StatusInternalServerError_def)
  next
    assume a: "Get st r (sessionName ah) = Inr p \<and> heap wd p = Some s \<and>
        s1 = s\<lparr>Values := (Values s)(userTimeout \<mapsto> TimeVal (t0 - sint (lifetime ah))),
               Options := (Options s)\<lparr>MaxAge := - 1\<rparr>\<rparr>"
      and b: "Save st r (resp wd) s1 = (Some serr, w')"
    have "Logout http_Redirect ah t0 r wd =
        (case Some serr of
           Some err \<Rightarrow>
             errorHandler_call ah r err StatusInternalServerError
               (wd\<lparr>heap := (heap wd)(p \<mapsto> s1), resp := w',
                  calls := calls wd @ [CallGet (sessionName ah), CallSave s1]\<rparr>)
         | None \<Rightarrow>
             Some (wd\<lparr>heap := (heap wd)(p \<mapsto> s1),
                   resp := http_Redirect w' r (redirLogout ah) StatusSeeOther,
                   calls := calls wd @ [CallGet (sessionName ah), CallSave s1]\<rparr>))"
      using a b assms(1) neg
      by (intro Logout_Get_ok [where st = st and s = s]) auto
    then show "Logout http_Redirect ah t0 r wd =
        Some (wd\<lparr>heap := (heap wd)(p \<mapsto> s1), resp := eh w' r serr 500,
                 calls := calls wd @ [CallGet (sessionName ah), CallSave s1,
                   CallErrorHandler serr 500]\<rparr>)"
      using assms(2) by (simp add: errorHandler_call_Some StatusInternalServerError_def)
  next
    assume a: "Get st r (sessionName ah) = Inr p \<and> heap wd p = Some s \<and>
        s1 = s\<lparr>Values := (Values s)(userTimeout \<mapsto> TimeVal (t0 - sint (lifetime ah))),
               Options := (Options s)\<lparr>MaxAge := - 1\<rparr>\<rparr>"
      and b: "Save st r (resp wd) s1 = (None, w')"
    have "Logout http_Redirect ah t0 r wd =
        (case None of
           Some err \<Rightarrow>
             errorHandler_call ah r err StatusInternalServerError
               (wd\<lparr>heap := (heap wd)(p \<mapsto> s1), resp := w',
                  calls := calls wd @ [CallGet (sessionName ah), CallSave s1]\<rparr>)
         | None \<Rightarrow>
             Some (wd\<lparr>heap := (heap wd)(p \<mapsto> s1),
                   resp := http_Redirect w' r (redirLogout ah) StatusSeeOther,
                   calls := calls wd @ [CallGet (sessionName ah), CallSave s1]\<rparr>))"
      using a b assms(1) neg
      by (intro Logout_Get_ok [where st = st and s = s]) auto
    then show "Logout http_Redirect ah t0 r wd =
        Some (wd\<lparr>heap := (heap wd)(p \<mapsto> s1),
                 resp := http_Redirect w' r (redirLogout ah) 303,
                 calls := calls wd @ [CallGet (sessionName ah), CallSave s1]\<rparr>)"
      by (simp add: StatusSeeOther_def)
  next
    assume a: "Get st r (sessionName ah) = Inr p \<and> heap wd p = Some s \<and>
        s1 = s\<lparr>Values := (Values s)(userTimeout \<mapsto> TimeVal (t0 - sint (lifetime ah))),
               Options := (Options s)\<lparr>MaxAge := - 1\<rparr>\<rparr>"
      and b: "Get st r2 (sessionName ah) = Inr p2 \<and> heap wd2 p2 = Some s2 \<and>
         Values s2 = Values s1 \<and> t0 \<le> t"
    have v: "Values s2 userTimeout = Some (TimeVal (t0 - sint (lifetime ah)))"
      using a b by simp
    have "After t (t0 - sint (lifetime ah))"
      using b assms(3) by (simp add: After_def)
    then show "AuthenticateRequest ah t r2 wd2 =
        Some ((Nil, Some ErrNotAuthorized),
              wd2\<lparr>calls := calls wd2 @ [CallGet (sessionName ah)]\<rparr>)"
      using AuthenticateRequest_expired [where st = st and s = s2 and ah = ah and r = r2
          and p = p2 and wd = wd2 and now = t] assms(1) b v
      by simp
  qed
qed

theorem Logout_invalidates_witness:
  "(0::int) < sint (lifetime example_handler) \<and>
   Logout example_Redirect (example_handler\<lparr>store := Some failing_Get_store\<rparr>) 2000 example_get
       logged_in_world =
     Some (logged_in_world\<lparr>resp := empty_response\<lparr>status := Some 500,
                                   body := ''the value is not valid'' @ [CHR 0x0A]\<rparr>,
             calls := [CallGet ''AuthSession'',
                       CallErrorHandler (New ''the value is not valid'') 500]\<rparr>) \<and>
   Logout example_Redirect (example_handler\<lparr>store := Some failing_Save_store\<rparr>) 2000 example_get
       logged_in_world =
     Some (logged_in_world\<lparr>heap := [0 \<mapsto> logout_session],
             resp := empty_response\<lparr>status := Some 500,
                                   body := ''the value is too long'' @ [CHR 0x0A]\<rparr>,
             calls := [CallGet ''AuthSession'', CallSave logout_session,
                       CallErrorHandler (New ''the value is too long'') 500]\<rparr>) \<and>
   Logout example_Redirect example_handler 2000 example_get logged_in_world =
     Some (logged_in_world\<lparr>heap := [0 \<mapsto> logout_session],
             resp := empty_response\<lparr>status := Some 303, location := Some ''/landingRedir'',
                      body := ''<a href='' @ [CHR 0x22] @ ''/landingRedir'' @ [CHR 0x22] @
                        ''>See Other</a>.'' @ [CHR 0x0A, CHR 0x0A],
                      set_cookie := [''AuthSession'']\<rparr>,
             calls := [CallGet ''AuthSession'', CallSave logout_session]\<rparr>) \<and>
   AuthenticateRequest example_handler 2000 example_get
       (logged_in_world\<lparr>heap := [0 \<mapsto> logout_session]\<rparr>) =
     Some ((Nil, Some ErrNotAuthorized),
           logged_in_world\<lparr>heap := [0 \<mapsto> logout_session],
                            calls := [CallGet ''AuthSession'']\<rparr>)"
  using
    Logout_invalidates [where http_Redirect = example_Redirect and ah = "example_handler\<lparr>store := Some failing_Get_store\<rparr>"
      and st = failing_Get_store and eh = "\<lambda>w r err c. http_Error w (Error err) c"
      and r = example_get and ?t0.0 = 2000 and wd = logged_in_world
      and err = "New ''the value is not valid''"]
    Logout_invalidates [where http_Redirect = example_Redirect and ah = "example_handler\<lparr>store := Some failing_Save_store\<rparr>"
      and st = failing_Save_store and eh = "\<lambda>w r err c. http_Error w (Error err) c"
      and r = example_get and ?t0.0 = 2000 and wd = logged_in_world and p = 0
      and s = "login_session\<lparr>IsNew := False\<rparr>" and ?s1.0 = logout_session
      and serr = "New ''the value is too long''" and w' = empty_response]
    Logout_invalidates [where http_Redirect = example_Redirect and ah = example_handler
      and st = example_store and eh = "\<lambda>w r err c. http_Error w (Error err) c"
      and r = example_get and ?t0.0 = 2000 and wd = logged_in_world and p = 0
      and s = "login_session\<lparr>IsNew := False\<rparr>" and ?s1.0 = logout_session
      and w' = "empty_response\<lparr>set_cookie := [''AuthSession'']\<rparr>"
      and ?r2.0 = example_get and ?p2.0 = 0
      and ?wd2.0 = "logged_in_world\<lparr>heap := [0 \<mapsto> logout_session]\<rparr>"
      and ?s2.0 = logout_session and t = 2000]
  by (simp add: ex_defs2)

subsection \<open>Authorize: validation\<close>

text \<open>
  Claim C4. \<open>Authorize\<close> validates in order, and each failure is one call of the
  error handler and nothing else: a method other than POST with status 400, a form
  that does not parse with status 500, an empty \<open>user\<close> or \<open>pass\<close> with
  \<open>ErrBadLogin\<close> and status 400, all three without a call of \<open>Check\<close>; after
  \<open>Check\<close> is called, its error with status 400 if it is \<open>ErrBadLogin\<close> and with
  status 500 otherwise.
\<close>

theorem Authorize_validation:
  assumes "errorHandler ah = Some eh"
  shows
    "(Method r \<noteq> ''POST'' \<longrightarrow>
        Authorize http_Redirect ah now r wd =
          Some (wd\<lparr>resp := eh (resp wd) r (New ''method should be POST'') 400,
                   calls := calls wd @
                     [CallErrorHandler (New ''method should be POST'') 400]\<rparr>)) \<and>
     (Method r = ''POST'' \<and> ParseForm r = Inl err \<longrightarrow>
        Authorize http_Redirect ah now r wd =
          Some (wd\<lparr>resp := eh (resp wd) r err 500,
                   calls := calls wd @ [CallErrorHandler err 500]\<rparr>)) \<and>
     (Method r = ''POST'' \<and> ParseForm r = Inr form \<and>
      (Form_Get form ''user'' = [] \<or> Form_Get form ''pass'' = []) \<longrightarrow>
        Authorize http_Redirect ah now r wd =
          Some (wd\<lparr>resp := eh (resp wd) r ErrBadLogin 400,
                   calls := calls wd @ [CallErrorHandler ErrBadLogin 400]\<rparr>)) \<and>
     (Method r = ''POST'' \<and> ParseForm r = Inr form \<and>
      Form_Get form ''user'' = user \<and> Form_Get form ''pass'' = pass \<and>
      user \<noteq> [] \<and> pass \<noteq> [] \<and> auther ah = Some check \<and>
      check user pass = (ident, Some cerr) \<longrightarrow>
        Authorize http_Redirect ah now r wd =
          Some (wd\<lparr>resp := eh (resp wd) r cerr (if cerr = ErrBadLogin then 400 else 500),
                   calls := calls wd @
                     [CallCheck user pass,
                      CallErrorHandler cerr (if cerr = ErrBadLogin then 400 else 500)]\<rparr>))"
proof (intro conjI impI)
  assume "Method r \<noteq> ''POST''"
  then show "Authorize http_Redirect ah now r wd =
      Some (wd\<lparr>resp := eh (resp wd) r (New ''method should be POST'') 400,
               calls := calls wd @ [CallErrorHandler (New ''method should be POST'') 400]\<rparr>)"
    using assms
    by (simp add: Authorize_bad_method errorHandler_call_Some StatusBadRequest_def)
next
  assume "Method r = ''POST'' \<and> ParseForm r = Inl err"
  then show "Authorize http_Redirect ah now r wd =
      Some (wd\<lparr>resp := eh (resp wd) r err 500, calls := calls wd @ [CallErrorHandler err 500]\<rparr>)"
    using assms
    by (simp add: Authorize_bad_form errorHandler_call_Some StatusInternalServerError_def)
next
  assume "Method r = ''POST'' \<and> ParseForm r = Inr form \<and>
    (Form_Get form ''user'' = [] \<or> Form_Get form ''pass'' = [])"
  then show "Authorize http_Redirect ah now r wd =
      Some (wd\<lparr>resp := eh (resp wd) r ErrBadLogin 400,
               calls := calls wd @ [CallErrorHandler ErrBadLogin 400]\<rparr>)"
    using assms
    by (simp add: Authorize_empty [where form = form] errorHandler_call_Some
        StatusBadRequest_def)
next
  assume "Method r = ''POST'' \<and> ParseForm r = Inr form \<and>
      Form_Get form ''user'' = user \<and> Form_Get form ''pass'' = pass \<and>
      user \<noteq> [] \<and> pass \<noteq> [] \<and> auther ah = Some check \<and>
      check user pass = (ident, Some cerr)"
  then show "Authorize http_Redirect ah now r wd =
      Some (wd\<lparr>resp := eh (resp wd) r cerr (if cerr = ErrBadLogin then 400 else 500),
               calls := calls wd @
                 [CallCheck user pass,
                  CallErrorHandler cerr (if cerr = ErrBadLogin then 400 else 500)]\<rparr>)"
    using assms by (intro Authorize_Check_error [where form = form and check = check]) simp_all
qed

theorem Authorize_validation_witness:
  "errorHandler example_handler = Some (\<lambda>w r err c. http_Error w (Error err) c) \<and>
   Method example_get \<noteq> ''POST'' \<and>
   Authorize example_Redirect example_handler 0 example_get new_world =
     Some (new_world\<lparr>resp := empty_response\<lparr>status := Some 400,
                                   body := ''method should be POST'' @ [CHR 0x0A]\<rparr>,
                      calls := [CallErrorHandler (New ''method should be POST'') 400]\<rparr>) \<and>
   Method bad_form_post = ''POST'' \<and> ParseForm bad_form_post = Inl (New ''invalid URL escape'') \<and>
   Authorize example_Redirect example_handler 0 bad_form_post new_world =
     Some (new_world\<lparr>resp := empty_response\<lparr>status := Some 500,
                                   body := ''invalid URL escape'' @ [CHR 0x0A]\<rparr>,
                      calls := [CallErrorHandler (New ''invalid URL escape'') 500]\<rparr>) \<and>
   Method empty_post = ''POST'' \<and> ParseForm empty_post = Inr Map.empty \<and>
   Form_Get Map.empty ''user'' = [] \<and>
   Authorize example_Redirect example_handler 0 empty_post new_world =
     Some (new_world\<lparr>resp := empty_response\<lparr>status := Some 400,
                                   body := ''Bad Login'' @ [CHR 0x0A]\<rparr>,
                      calls := [CallErrorHandler ErrBadLogin 400]\<rparr>) \<and>
   example_check ''false'' ''false'' = (Nil, Some ErrBadLogin) \<and>
   Authorize example_Redirect example_handler 0 false_post new_world =
     Some (new_world\<lparr>resp := empty_response\<lparr>status := Some 400,
                                   body := ''Bad Login'' @ [CHR 0x0A]\<rparr>,
                      calls := [CallCheck ''false'' ''false'',
                                CallErrorHandler ErrBadLogin 400]\<rparr>) \<and>
   failing_check ''false'' ''false'' = (Nil, Some (New ''backend down'')) \<and>
   Authorize example_Redirect (example_handler\<lparr>auther := Some failing_check\<rparr>) 0 false_post new_world =
     Some (new_world\<lparr>resp := empty_response\<lparr>status := Some 500,
                                   body := ''backend down'' @ [CHR 0x0A]\<rparr>,
                      calls := [CallCheck ''false'' ''false'',
                                CallErrorHandler (New ''backend down'') 500]\<rparr>)"
  using
    Authorize_validation [where http_Redirect = example_Redirect and ah = example_handler and r = example_get and now = 0
      and wd = new_world and eh = "\<lambda>w r err c. http_Error w (Error err) c"]
    Authorize_validation [where http_Redirect = example_Redirect and ah = example_handler and r = bad_form_post and now = 0
      and wd = new_world and eh = "\<lambda>w r err c. http_Error w (Error err) c"
      and err = "New ''invalid URL escape''"]
    Authorize_validation [where http_Redirect = example_Redirect and ah = example_handler and r = empty_post and now = 0
      and wd = new_world and eh = "\<lambda>w r err c. http_Error w (Error err) c"
      and form = Map.empty]
    Authorize_validation [where http_Redirect = example_Redirect and ah = example_handler and r = false_post and now = 0
      and wd = new_world and eh = "\<lambda>w r err c. http_Error w (Error err) c"
      and form = "[''user'' \<mapsto> [''false''], ''pass'' \<mapsto> [''false'']]"
      and user = "''false''" and pass = "''false''" and check = example_check
      and ident = Nil and cerr = ErrBadLogin]
    Authorize_validation [where http_Redirect = example_Redirect and ah = "example_handler\<lparr>auther := Some failing_check\<rparr>"
      and r = false_post and now = 0
      and wd = new_world and eh = "\<lambda>w r err c. http_Error w (Error err) c"
      and form = "[''user'' \<mapsto> [''false''], ''pass'' \<mapsto> [''false'']]"
      and user = "''false''" and pass = "''false''" and check = failing_check
      and ident = Nil and cerr = "New ''backend down''"]
  by (simp add: example_handler_def example_get_def bad_form_post_def empty_post_def
      false_post_def new_world_def empty_response_def example_check_def failing_check_def
      Form_Get_def http_Error_def WriteHeader_def)

subsection \<open>Authorize: the successful check\<close>

text \<open>
  Claim C5. \<open>SaveUserSession\<close> returns the error of a failing \<open>store.Get\<close> to its
  caller; otherwise it writes the identity under \<open>userKey\<close> and the time plus the
  lifetime under \<open>userTimeout\<close>, calls \<open>Save\<close> and returns its result, without a
  call of the error handler. After a successful \<open>Check\<close>, \<open>Authorize\<close> does the same
  with the identity of \<open>Check\<close>: a failing \<open>Get\<close> or \<open>Save\<close> goes to the error
  handler with status 500, and after a successful \<open>Save\<close> the response is a redirect
  to the landing path with status 303. \<open>Authorize\<close> calls \<open>Save\<close> only after a
  successful \<open>Check\<close> of a POST with both fields.
\<close>

theorem Authorize_success:
  assumes "store ah = Some st" and "errorHandler ah = Some eh" and "auther ah = Some check"
  shows
    "(Get st r (sessionName ah) = Inl err \<longrightarrow>
        SaveUserSession ah now r userData wd =
          Some (Some err, wd\<lparr>calls := calls wd @ [CallGet (sessionName ah)]\<rparr>)) \<and>
     (Get st r (sessionName ah) = Inr p \<and> heap wd p = Some s \<and>
      su = s\<lparr>Values := (Values s)(userKey \<mapsto> userData,
                 userTimeout \<mapsto> TimeVal (Add now (lifetime ah)))\<rparr> \<and>
      Save st r (resp wd) su = (ures, uw) \<longrightarrow>
        SaveUserSession ah now r userData wd =
          Some (ures, wd\<lparr>heap := (heap wd)(p \<mapsto> su), resp := uw,
                   calls := calls wd @ [CallGet (sessionName ah), CallSave su]\<rparr>)) \<and>
     (Method r = ''POST'' \<and> ParseForm r = Inr form \<and>
      Form_Get form ''user'' = user \<and> Form_Get form ''pass'' = pass \<and>
      user \<noteq> [] \<and> pass \<noteq> [] \<and> check user pass = (ident, None) \<longrightarrow>
        (Get st r (sessionName ah) = Inl err \<longrightarrow>
           Authorize http_Redirect ah now r wd =
             Some (wd\<lparr>resp := eh (resp wd) r err 500,
                      calls := calls wd @ [CallCheck user pass, CallGet (sessionName ah),
                        CallErrorHandler err 500]\<rparr>)) \<and>
        (Get st r (sessionName ah) = Inr p \<and> heap wd p = Some s \<and>
         s1 = s\<lparr>Values := (Values s)(userKey \<mapsto> ident,
                    userTimeout \<mapsto> TimeVal (Add now (lifetime ah)))\<rparr> \<longrightarrow>
           (Save st r (resp wd) s1 = (Some serr, w') \<longrightarrow>
              Authorize http_Redirect ah now r wd =
                Some (wd\<lparr>heap := (heap wd)(p \<mapsto> s1), resp := eh w' r serr 500,
                         calls := calls wd @ [CallCheck user pass, CallGet (sessionName ah),
                           CallSave s1, CallErrorHandler serr 500]\<rparr>)) \<and>
           (Save st r (resp wd) s1 = (None, w') \<longrightarrow>
              Authorize http_Redirect ah now r wd =
                Some (wd\<lparr>heap := (heap wd)(p \<mapsto> s1),
                         resp := http_Redirect w' r (redirLanding ah) 303,
                         calls := calls wd @ [CallCheck user pass, CallGet (sessionName ah),
                           CallSave s1]\<rparr>)))) \<and>
     (Authorize http_Redirect ah now r wd = Some wd1 \<and> calls wd1 = calls wd @ evs \<and> CallSave x \<in> set evs \<longrightarrow>
        Method r = ''POST'' \<and>
        (\<exists>form ident. ParseForm r = Inr form \<and> Form_Get form ''user'' \<noteq> [] \<and>
           Form_Get form ''pass'' \<noteq> [] \<and>
           check (Form_Get form ''user'') (Form_Get form ''pass'') = (ident, None)))"
proof (intro conjI impI)
  assume "Get st r (sessionName ah) = Inl err"
  then show "SaveUserSession ah now r userData wd =
      Some (Some err, wd\<lparr>calls := calls wd @ [CallGet (sessionName ah)]\<rparr>)"
    using assms(1) by (rule SaveUserSession_Get_error [rotated])
next
  assume "Get st r (sessionName ah) = Inr p \<and> heap wd p = Some s \<and>
      su = s\<lparr>Values := (Values s)(userKey \<mapsto> userData,
                 userTimeout \<mapsto> TimeVal (Add now (lifetime ah)))\<rparr> \<and>
      Save st r (resp wd) su = (ures, uw)"
  then show "SaveUserSession ah now r userData wd =
      Some (ures, wd\<lparr>heap := (heap wd)(p \<mapsto> su), resp := uw,
               calls := calls wd @ [CallGet (sessionName ah), CallSave su]\<rparr>)"
    using assms(1) by (intro SaveUserSession_Get_ok [where st = st and s = s]) auto
next
  assume a: "Method r = ''POST'' \<and> ParseForm r = Inr form \<and>
      Form_Get form ''user'' = user \<and> Form_Get form ''pass'' = pass \<and>
      user \<noteq> [] \<and> pass \<noteq> [] \<and> check user pass = (ident, None)"
    and "Get st r (sessionName ah) = Inl err"
  then show "Authorize http_Redirect ah now r wd =
      Some (wd\<lparr>resp := eh (resp wd) r err 500,
               calls := calls wd @ [CallCheck user pass, CallGet (sessionName ah),
                 CallErrorHandler err 500]\<rparr>)"
    using assms
    by (intro Authorize_Get_error [where form = form and check = check and st = st]) auto
next
  assume a: "Method r = ''POST'' \<and> ParseForm r = Inr form \<and>
      Form_Get form ''user'' = user \<and> Form_Get form ''pass'' = pass \<and>
      user \<noteq> [] \<and> pass \<noteq> [] \<and> check user pass = (ident, None)"
    and b: "Get st r (sessionName ah) = Inr p \<and> heap wd p = Some s \<and>
         s1 = s\<lparr>Values := (Values s)(userKey \<mapsto> ident,
                    userTimeout \<mapsto> TimeVal (Add now (lifetime ah)))\<rparr>"
    and c: "Save st r (resp wd) s1 = (Some serr, w')"
  have "Authorize http_Redirect ah now r wd =
     (case Some serr of
        Some err \<Rightarrow>
          errorHandler_call ah r err StatusInternalServerError
            (wd\<lparr>heap := (heap wd)(p \<mapsto> s1), resp := w',
               calls := calls wd @ [CallCheck user pass, CallGet (sessionName ah),
                 CallSave s1]\<rparr>)
      | None \<Rightarrow>
          Some (wd\<lparr>heap := (heap wd)(p \<mapsto> s1),
                resp := http_Redirect w' r (redirLanding ah) StatusSeeOther,
                calls := calls wd @ [CallCheck user pass, CallGet (sessionName ah),
                  CallSave s1]\<rparr>))"
    using a b c assms
    by (intro Authorize_Get_ok [where form = form and check = check and st = st and s = s
          and ident = ident]) auto
  then show "Authorize http_Redirect ah now r wd =
      Some (wd\<lparr>heap := (heap wd)(p \<mapsto> s1), resp := eh w' r serr 500,
               calls := calls wd @ [CallCheck user pass, CallGet (sessionName ah),
                 CallSave s1, CallErrorHandler serr 500]\<rparr>)"
    using assms(2) by (simp add: errorHandler_call_Some StatusInternalServerError_def)
next
  assume a: "Method r = ''POST'' \<and> ParseForm r = Inr form \<and>
      Form_Get form ''user'' = user \<and> Form_Get form ''pass'' = pass \<and>
      user \<noteq> [] \<and> pass \<noteq> [] \<and> check user pass = (ident, None)"
    and b: "Get st r (sessionName ah) = Inr p \<and> heap wd p = Some s \<and>
         s1 = s\<lparr>Values := (Values s)(userKey \<mapsto> ident,
                    userTimeout \<mapsto> TimeVal (Add now (lifetime ah)))\<rparr>"
    and c: "Save st r (resp wd) s1 = (None, w')"
  have "Authorize http_Redirect ah now r wd =
     (case None of
        Some err \<Rightarrow>
          errorHandler_call ah r err StatusInternalServerError
            (wd\<lparr>heap := (heap wd)(p \<mapsto> s1), resp := w',
               calls := calls wd @ [CallCheck user pass, CallGet (sessionName ah),
                 CallSave s1]\<rparr>)
      | None \<Rightarrow>
          Some (wd\<lparr>heap := (heap wd)(p \<mapsto> s1),
                resp := http_Redirect w' r (redirLanding ah) StatusSeeOther,
                calls := calls wd @ [CallCheck user pass, CallGet (sessionName ah),
                  CallSave s1]\<rparr>))"
    using a b c assms
    by (intro Authorize_Get_ok [where form = form and check = check and st = st and s = s
          and ident = ident]) auto
  then show "Authorize http_Redirect ah now r wd =
      Some (wd\<lparr>heap := (heap wd)(p \<mapsto> s1),
               resp := http_Redirect w' r (redirLanding ah) 303,
               calls := calls wd @ [CallCheck user pass, CallGet (sessionName ah),
                 CallSave s1]\<rparr>)"
    by (simp add: StatusSeeOther_def)
next
  assume a: "Authorize http_Redirect ah now r wd = Some wd1 \<and> calls wd1 = calls wd @ evs \<and> CallSave x \<in> set evs"
  then show "Method r = ''POST''"
    using Authorize_Save_needs_Check [of http_Redirect ah now r wd wd1 evs x] by simp
  from a show "\<exists>form ident. ParseForm r = Inr form \<and> Form_Get form ''user'' \<noteq> [] \<and>
           Form_Get form ''pass'' \<noteq> [] \<and>
           check (Form_Get form ''user'') (Form_Get form ''pass'') = (ident, None)"
    using Authorize_Save_needs_Check [of http_Redirect ah now r wd wd1 evs x] assms(3) by auto
qed

theorem Authorize_success_witness:
  "SaveUserSession (example_handler\<lparr>store := Some failing_Get_store\<rparr>) 1000 example_post
       (IntVal 23) new_world =
     Some (Some (New ''the value is not valid''),
           new_world\<lparr>calls := [CallGet ''AuthSession'']\<rparr>) \<and>
   SaveUserSession example_handler 1000 example_post (IntVal 23) new_world =
     Some (None,
           new_world\<lparr>heap := [0 \<mapsto> login_session],
                     resp := empty_response\<lparr>set_cookie := [''AuthSession'']\<rparr>,
                     calls := [CallGet ''AuthSession'', CallSave login_session]\<rparr>) \<and>
   Authorize example_Redirect (example_handler\<lparr>store := Some failing_Get_store\<rparr>) 1000 example_post new_world =
     Some (new_world\<lparr>resp := empty_response\<lparr>status := Some 500,
                                   body := ''the value is not valid'' @ [CHR 0x0A]\<rparr>,
                      calls := [CallCheck ''testUser'' ''testPassw'', CallGet ''AuthSession'',
                                CallErrorHandler (New ''the value is not valid'') 500]\<rparr>) \<and>
   Authorize example_Redirect (example_handler\<lparr>store := Some failing_Save_store\<rparr>) 1000 example_post new_world =
     Some (new_world\<lparr>heap := [0 \<mapsto> login_session],
                      resp := empty_response\<lparr>status := Some 500,
                                   body := ''the value is too long'' @ [CHR 0x0A]\<rparr>,
                      calls := [CallCheck ''testUser'' ''testPassw'', CallGet ''AuthSession'',
                                CallSave login_session,
                                CallErrorHandler (New ''the value is too long'') 500]\<rparr>) \<and>
   Authorize example_Redirect example_handler 1000 example_post new_world =
     Some (new_world\<lparr>heap := [0 \<mapsto> login_session],
                      resp := empty_response\<lparr>status := Some 303,
                                   location := Some ''/landingRedir'',
                                   set_cookie := [''AuthSession'']\<rparr>,
                      calls := [CallCheck ''testUser'' ''testPassw'', CallGet ''AuthSession'',
                                CallSave login_session]\<rparr>) \<and>
   CallSave login_session \<in>
     set [CallCheck ''testUser'' ''testPassw'', CallGet ''AuthSession'', CallSave login_session] \<and>
   Method example_post = ''POST'' \<and>
   example_check ''testUser'' ''testPassw'' = (IntVal 23, None)"
  using
    Authorize_success [where http_Redirect = example_Redirect and ah = "example_handler\<lparr>store := Some failing_Get_store\<rparr>"
      and st = failing_Get_store and eh = "\<lambda>w r err c. http_Error w (Error err) c"
      and check = example_check and r = example_post and now = 1000 and wd = new_world
      and err = "New ''the value is not valid''" and userData = "IntVal 23"
      and form = "[''user'' \<mapsto> [''testUser''], ''pass'' \<mapsto> [''testPassw'']]"
      and user = "''testUser''" and pass = "''testPassw''" and ident = "IntVal 23"]
    Authorize_success [where http_Redirect = example_Redirect and ah = "example_handler\<lparr>store := Some failing_Save_store\<rparr>"
      and st = failing_Save_store and eh = "\<lambda>w r err c. http_Error w (Error err) c"
      and check = example_check and r = example_post and now = 1000 and wd = new_world
      and p = 0 and s = new_session and ?s1.0 = login_session
      and serr = "New ''the value is too long''" and w' = empty_response
      and form = "[''user'' \<mapsto> [''testUser''], ''pass'' \<mapsto> [''testPassw'']]"
      and user = "''testUser''" and pass = "''testPassw''" and ident = "IntVal 23"]
    Authorize_success [where http_Redirect = example_Redirect and ah = example_handler
      and st = example_store and eh = "\<lambda>w r err c. http_Error w (Error err) c"
      and check = example_check and r = example_post and now = 1000 and wd = new_world
      and p = 0 and s = new_session and ?s1.0 = login_session and su = login_session
      and userData = "IntVal 23" and ures = None
      and uw = "empty_response\<lparr>set_cookie := [''AuthSession'']\<rparr>"
      and w' = "empty_response\<lparr>set_cookie := [''AuthSession'']\<rparr>"
      and form = "[''user'' \<mapsto> [''testUser''], ''pass'' \<mapsto> [''testPassw'']]"
      and user = "''testUser''" and pass = "''testPassw''" and ident = "IntVal 23"
      and ?wd1.0 = "new_world\<lparr>heap := [0 \<mapsto> login_session],
                      resp := empty_response\<lparr>status := Some 303,
                                   location := Some ''/landingRedir'',
                                   set_cookie := [''AuthSession'']\<rparr>,
                      calls := [CallCheck ''testUser'' ''testPassw'', CallGet ''AuthSession'',
                                CallSave login_session]\<rparr>"
      and evs = "[CallCheck ''testUser'' ''testPassw'', CallGet ''AuthSession'',
                                CallSave login_session]"
      and x = login_session]
  by (simp add: ex_defs)

subsection \<open>NewHandler\<close>

text \<open>
  Claim C6. Write \<open>reached n\<close> for the handler that the first \<open>n\<close> options leave
  when each is applied, in order, to what the one before left, starting from the
  zero handler with the verifier. If option \<open>i\<close> returns an error on \<open>reached i\<close>
  and no earlier option does on its handler, \<open>NewHandler\<close> returns that error. If no
  option returns an error and the handler reached after all of them has no store,
  \<open>NewHandler\<close> returns the missing-store error; these are its only errors.
  Otherwise it returns the handler reached after all options, with the defaults
  filled in: a zero lifetime becomes 5 minutes, an empty landing path \<open>/\<close>, an
  empty logout path the landing path, an empty session name \<open>AuthSession\<close>, a
  missing error handler the one that calls \<open>http.Error\<close> with the text of the error
  and the status (the text is then the line written to the body), and a missing
  not-authorized handler the one that calls the error handler with
  \<open>ErrNotAuthorized\<close> and status 401. Whatever the options set stays as set.
\<close>

theorem NewHandler_defaults:
  fixes a :: "Auther option" and options :: "Option list"
  defines "reached \<equiv> \<lambda>n. foldl (\<lambda>h opt. fst (opt h)) (zero_Handler\<lparr>auther := a\<rparr>) (take n options)"
  shows
    "(i < length options \<and> (\<forall>j<i. snd ((options ! j) (reached j)) = None) \<and>
      snd ((options ! i) (reached i)) = Some err \<longrightarrow>
        NewHandler a options = Inl err) \<and>
     ((\<forall>j<length options. snd ((options ! j) (reached j)) = None) \<and>
      store (reached (length options)) = None \<longrightarrow>
        NewHandler a options = Inl (New ''please set a session.Store'')) \<and>
     ((\<forall>j<length options. snd ((options ! j) (reached j)) = None) \<and>
      ah = reached (length options) \<and> store ah \<noteq> None \<longrightarrow>
        (\<exists>ah' eh nah.
           NewHandler a options = Inr ah' \<and>
           auther ah' = auther ah \<and> store ah' = store ah \<and>
           lifetime ah' = (if lifetime ah = 0 then 5 * Minute else lifetime ah) \<and>
           redirLanding ah' = (if redirLanding ah = [] then ''/'' else redirLanding ah) \<and>
           redirLogout ah' =
             (if redirLogout ah = [] then redirLanding ah' else redirLogout ah) \<and>
           sessionName ah' =
             (if sessionName ah = [] then ''AuthSession'' else sessionName ah) \<and>
           errorHandler ah' = Some eh \<and>
           (case errorHandler ah of
              None \<Rightarrow> eh = (\<lambda>w r err c. http_Error w (Error err) c)
            | Some eh0 \<Rightarrow> eh = eh0) \<and>
           notAuthorizedHandler ah' = Some nah \<and>
           (case notAuthorizedHandler ah of
              None \<Rightarrow> nah = (\<lambda>w r. eh w r ErrNotAuthorized 401)
            | Some nah0 \<Rightarrow> nah = nah0))) \<and>
     (NewHandler a options = Inl err \<longrightarrow>
        (\<exists>i<length options. (\<forall>j<i. snd ((options ! j) (reached j)) = None) \<and>
           snd ((options ! i) (reached i)) = Some err) \<or>
        ((\<forall>j<length options. snd ((options ! j) (reached j)) = None) \<and>
         store (reached (length options)) = None \<and> err = New ''please set a session.Store'')) \<and>
     sint (5 * Minute) = 5 * 60 * 1000000000 \<and>
     (status w = None \<longrightarrow>
        status (http_Error w (Error e) c) = Some c \<and>
        body (http_Error w (Error e) c) = body w @ Error e @ [CHR 0x0A])"
proof -
  let ?z = "zero_Handler\<lparr>auther := a\<rparr>"
  let ?f = "\<lambda>h (opt :: Option). fst (opt h)"
  have rd: "reached n = foldl ?f ?z (take n options)" for n
    by (simp add: reached_def)
  have all: "run_options options ?z = Inr (reached (length options))"
    if "\<forall>j<length options. snd ((options ! j) (reached j)) = None"
    using that by (simp add: run_options_Inr_iff rd)
  have c1: "NewHandler a options = Inl err"
    if "i < length options \<and> (\<forall>j<i. snd ((options ! j) (reached j)) = None) \<and>
      snd ((options ! i) (reached i)) = Some err"
  proof -
    have "run_options options ?z = Inl err"
      using that by (intro run_options_fails_at [where i = i]) (simp_all add: rd)
    then show ?thesis
      by (simp add: NewHandler_def)
  qed
  have c2: "NewHandler a options = Inl (New ''please set a session.Store'')"
    if "(\<forall>j<length options. snd ((options ! j) (reached j)) = None) \<and>
      store (reached (length options)) = None"
    using that all by (simp add: NewHandler_def)
  have c3: "\<exists>ah' eh nah.
           NewHandler a options = Inr ah' \<and>
           auther ah' = auther ah \<and> store ah' = store ah \<and>
           lifetime ah' = (if lifetime ah = 0 then 5 * Minute else lifetime ah) \<and>
           redirLanding ah' = (if redirLanding ah = [] then ''/'' else redirLanding ah) \<and>
           redirLogout ah' =
             (if redirLogout ah = [] then redirLanding ah' else redirLogout ah) \<and>
           sessionName ah' =
             (if sessionName ah = [] then ''AuthSession'' else sessionName ah) \<and>
           errorHandler ah' = Some eh \<and>
           (case errorHandler ah of
              None \<Rightarrow> eh = (\<lambda>w r err c. http_Error w (Error err) c)
            | Some eh0 \<Rightarrow> eh = eh0) \<and>
           notAuthorizedHandler ah' = Some nah \<and>
           (case notAuthorizedHandler ah of
              None \<Rightarrow> nah = (\<lambda>w r. eh w r ErrNotAuthorized 401)
            | Some nah0 \<Rightarrow> nah = nah0)"
    if "(\<forall>j<length options. snd ((options ! j) (reached j)) = None) \<and>
      ah = reached (length options) \<and> store ah \<noteq> None"
  proof -
    have "run_options options ?z = Inr ah" and "store ah \<noteq> None"
      using that all by auto
    from NewHandler_Inr [OF this] show ?thesis
      by (auto split: option.splits)
  qed
  have c4: "(\<exists>i<length options. (\<forall>j<i. snd ((options ! j) (reached j)) = None) \<and>
           snd ((options ! i) (reached i)) = Some err) \<or>
        ((\<forall>j<length options. snd ((options ! j) (reached j)) = None) \<and>
         store (reached (length options)) = None \<and> err = New ''please set a session.Store'')"
    if e: "NewHandler a options = Inl err"
  proof (cases "run_options options ?z")
    case (Inl x)
    then have "x = err"
      using e by (simp add: NewHandler_def)
    then show ?thesis
      using run_options_Inl_index [of options ?z err] Inl by (simp add: rd)
  next
    case (Inr h)
    then have ok: "\<forall>j<length options. snd ((options ! j) (reached j)) = None"
      and h: "h = reached (length options)"
      by (simp_all add: run_options_Inr_iff rd)
    have "store h = None \<and> err = New ''please set a session.Store''"
      using e Inr by (auto simp: NewHandler_def Let_def split: if_splits)
    then show ?thesis
      using ok h by simp
  qed
  have c5: "sint (5 * Minute) = 5 * 60 * 1000000000"
    by (simp add: Minute_def)
  have c6: "status (http_Error w (Error e) c) = Some c \<and>
        body (http_Error w (Error e) c) = body w @ Error e @ [CHR 0x0A]"
    if "status w = None"
    using that by (simp add: http_Error_def WriteHeader_def)
  show ?thesis
    using c1 c2 c3 c4 c5 c6 by blast
qed

theorem NewHandler_defaults_witness:
  "NewHandler (Some example_check)
       [lifetime_option (10 * Minute), store_option example_store, failing_option,
        name_option ''sid''] =
     Inl (New ''nil ErrorHandler passed'') \<and>
   NewHandler (Some example_check) [lifetime_option (10 * Minute), landing_option ''/home''] =
     Inl (New ''please set a session.Store'') \<and>
   NewHandler (Some example_check)
       [lifetime_option (10 * Minute), landing_option ''/home'', name_option ''sid'',
        store_option example_store] =
     Inr configured_handler \<and>
   NewHandler (Some example_check) [store_option example_store] = Inr default_handler \<and>
   status (http_Error empty_response (Error ErrNotAuthorized) 401) = Some 401 \<and>
   body (http_Error empty_response (Error ErrNotAuthorized) 401) =
     ''Not Authorized'' @ [CHR 0x0A]"
proof -
  let ?a = "Some example_check"
  have fail: "NewHandler ?a
       [lifetime_option (10 * Minute), store_option example_store, failing_option,
        name_option ''sid''] =
     Inl (New ''nil ErrorHandler passed'')"
    using NewHandler_defaults [where a = ?a and i = "Suc (Suc 0)"
        and err = "New ''nil ErrorHandler passed''"
        and options = "[lifetime_option (10 * Minute), store_option example_store,
          failing_option, name_option ''sid'']", THEN conjunct1]
    by (simp add: All_less_Suc option_defs)
  have nostore: "NewHandler ?a [lifetime_option (10 * Minute), landing_option ''/home''] =
     Inl (New ''please set a session.Store'')"
    using NewHandler_defaults [where a = ?a
        and options = "[lifetime_option (10 * Minute), landing_option ''/home'']",
        THEN conjunct2, THEN conjunct1]
    by (simp add: All_less_Suc option_defs)
  have "\<exists>ah'. NewHandler ?a
       [lifetime_option (10 * Minute), landing_option ''/home'', name_option ''sid'',
        store_option example_store] = Inr ah' \<and>
      auther ah' = Some example_check \<and> store ah' = Some example_store \<and>
      lifetime ah' = 10 * Minute \<and> redirLanding ah' = ''/home'' \<and> redirLogout ah' = ''/home'' \<and>
      sessionName ah' = ''sid'' \<and>
      errorHandler ah' = Some (\<lambda>w r err c. http_Error w (Error err) c) \<and>
      notAuthorizedHandler ah' = Some (\<lambda>w r. http_Error w ''Not Authorized'' 401)"
    using NewHandler_defaults [where a = ?a
        and options = "[lifetime_option (10 * Minute), landing_option ''/home'',
          name_option ''sid'', store_option example_store]"
        and ah = "zero_Handler\<lparr>auther := ?a, lifetime := 10 * Minute,
          redirLanding := ''/home'', sessionName := ''sid'', store := Some example_store\<rparr>",
        THEN conjunct2, THEN conjunct2, THEN conjunct1]
    by (auto simp: All_less_Suc option_defs Minute_def)
  then obtain ah' where n: "NewHandler ?a
       [lifetime_option (10 * Minute), landing_option ''/home'', name_option ''sid'',
        store_option example_store] = Inr ah'"
    and f: "auther ah' = Some example_check" "store ah' = Some example_store"
      "lifetime ah' = 10 * Minute" "redirLanding ah' = ''/home''" "redirLogout ah' = ''/home''"
      "sessionName ah' = ''sid''"
      "errorHandler ah' = Some (\<lambda>w r err c. http_Error w (Error err) c)"
      "notAuthorizedHandler ah' = Some (\<lambda>w r. http_Error w ''Not Authorized'' 401)"
    by blast
  have "ah' = configured_handler"
    using f
    by (intro Handler.equality) (simp_all add: configured_handler_def StatusUnauthorized_def)
  with n have ok: "NewHandler ?a
       [lifetime_option (10 * Minute), landing_option ''/home'', name_option ''sid'',
        store_option example_store] = Inr configured_handler"
    by simp
  have "\<exists>ah'. NewHandler ?a [store_option example_store] = Inr ah' \<and>
      auther ah' = Some example_check \<and> store ah' = Some example_store \<and>
      lifetime ah' = 5 * Minute \<and> redirLanding ah' = ''/'' \<and> redirLogout ah' = ''/'' \<and>
      sessionName ah' = ''AuthSession'' \<and>
      errorHandler ah' = Some (\<lambda>w r err c. http_Error w (Error err) c) \<and>
      notAuthorizedHandler ah' = Some (\<lambda>w r. http_Error w ''Not Authorized'' 401)"
    using NewHandler_defaults [where a = ?a and options = "[store_option example_store]"
        and ah = "zero_Handler\<lparr>auther := ?a, store := Some example_store\<rparr>",
        THEN conjunct2, THEN conjunct2, THEN conjunct1]
    by (auto simp: All_less_Suc option_defs)
  then obtain ah0 where n0: "NewHandler ?a [store_option example_store] = Inr ah0"
    and f0: "auther ah0 = Some example_check" "store ah0 = Some example_store"
      "lifetime ah0 = 5 * Minute" "redirLanding ah0 = ''/''" "redirLogout ah0 = ''/''"
      "sessionName ah0 = ''AuthSession''"
      "errorHandler ah0 = Some (\<lambda>w r err c. http_Error w (Error err) c)"
      "notAuthorizedHandler ah0 = Some (\<lambda>w r. http_Error w ''Not Authorized'' 401)"
    by blast
  have "ah0 = default_handler"
    using f0
    by (intro Handler.equality) (simp_all add: default_handler_def StatusUnauthorized_def)
  with n0 have dflt: "NewHandler ?a [store_option example_store] = Inr default_handler"
    by simp
  have "status (http_Error empty_response (Error ErrNotAuthorized) 401) = Some 401 \<and>
     body (http_Error empty_response (Error ErrNotAuthorized) 401) =
       ''Not Authorized'' @ [CHR 0x0A]"
    using NewHandler_defaults [where w = empty_response and e = ErrNotAuthorized and c = 401]
    by (simp add: empty_response_def)
  with fail nostore ok dflt show ?thesis
    by simp
qed

subsection \<open>Authenticate\<close>

text \<open>
  Claim C7. Where \<open>AuthenticateRequest\<close> returns, \<open>Authenticate\<close> calls the
  downstream handler if the error is nil and the not-authorized handler otherwise,
  never both: the downstream handler is called if and only if the error is nil. The
  not-authorized handler of a handler built without handler options answers with
  status 401 and the line \<open>Not Authorized\<close>.
\<close>

theorem Authenticate_gate:
  assumes "AuthenticateRequest ah now r wd = Some ((ident, err), wd1)"
    and "notAuthorizedHandler ah = Some h"
  shows
    "(err = None \<longrightarrow>
        Authenticate ah next now r wd =
          Some (wd\<lparr>resp := next (resp wd) r,
                   calls := calls wd @ [CallGet (sessionName ah), CallNext]\<rparr>)) \<and>
     (err \<noteq> None \<longrightarrow>
        Authenticate ah next now r wd =
          Some (wd\<lparr>resp := h (resp wd) r,
                   calls := calls wd @ [CallGet (sessionName ah),
                     CallNotAuthorizedHandler]\<rparr>)) \<and>
     (\<exists>wd2 evs. Authenticate ah next now r wd = Some wd2 \<and> calls wd2 = calls wd @ evs \<and>
        (CallNext \<in> set evs \<longleftrightarrow> err = None) \<and>
        (CallNotAuthorizedHandler \<in> set evs \<longleftrightarrow> err \<noteq> None)) \<and>
     (NewHandler a options = Inr ah \<and>
      run_options options (zero_Handler\<lparr>auther := a\<rparr>) = Inr ah0 \<and>
      errorHandler ah0 = None \<and> notAuthorizedHandler ah0 = None \<longrightarrow>
        h = (\<lambda>w r. http_Error w ''Not Authorized'' 401) \<and>
        (status w = None \<longrightarrow>
           status (h w r) = Some 401 \<and> body (h w r) = body w @ ''Not Authorized'' @ [CHR 0x0A]))"
proof -
  have w1: "wd1 = wd\<lparr>calls := calls wd @ [CallGet (sessionName ah)]\<rparr>"
    using assms(1) by (rule AuthenticateRequest_world)
  have ok: "Authenticate ah next now r wd =
      Some (wd\<lparr>resp := next (resp wd) r,
               calls := calls wd @ [CallGet (sessionName ah), CallNext]\<rparr>)" if "err = None"
    using that assms(1) w1 by (simp add: Authenticate_def)
  have no: "Authenticate ah next now r wd =
      Some (wd\<lparr>resp := h (resp wd) r,
               calls := calls wd @ [CallGet (sessionName ah), CallNotAuthorizedHandler]\<rparr>)"
    if "err \<noteq> None"
    using that assms w1 by (auto simp: Authenticate_def)
  have ex: "\<exists>wd2 evs. Authenticate ah next now r wd = Some wd2 \<and> calls wd2 = calls wd @ evs \<and>
        (CallNext \<in> set evs \<longleftrightarrow> err = None) \<and>
        (CallNotAuthorizedHandler \<in> set evs \<longleftrightarrow> err \<noteq> None)"
  proof (cases err)
    case None
    then show ?thesis
      using ok
      by (intro exI [of _ "wd\<lparr>resp := next (resp wd) r,
            calls := calls wd @ [CallGet (sessionName ah), CallNext]\<rparr>"]
          exI [of _ "[CallGet (sessionName ah), CallNext]"]) simp
  next
    case (Some e)
    then show ?thesis
      using no
      by (intro exI [of _ "wd\<lparr>resp := h (resp wd) r,
            calls := calls wd @ [CallGet (sessionName ah), CallNotAuthorizedHandler]\<rparr>"]
          exI [of _ "[CallGet (sessionName ah), CallNotAuthorizedHandler]"]) simp
  qed
  have dflt: "h = (\<lambda>w r. http_Error w ''Not Authorized'' 401) \<and>
        (status w = None \<longrightarrow>
           status (h w r) = Some 401 \<and> body (h w r) = body w @ ''Not Authorized'' @ [CHR 0x0A])"
    if "NewHandler a options = Inr ah \<and>
      run_options options (zero_Handler\<lparr>auther := a\<rparr>) = Inr ah0 \<and>
      errorHandler ah0 = None \<and> notAuthorizedHandler ah0 = None"
  proof -
    have "notAuthorizedHandler ah = Some (\<lambda>w r. http_Error w ''Not Authorized'' 401)"
      using that
      by (auto simp: NewHandler_def Let_def StatusUnauthorized_def split: if_splits)
    then have "h = (\<lambda>w r. http_Error w ''Not Authorized'' 401)"
      using assms(2) by simp
    then show ?thesis
      by (simp add: http_Error_def WriteHeader_def)
  qed
  show ?thesis
    using ok no ex dflt by blast
qed

theorem Authenticate_gate_witness:
  "AuthenticateRequest default_handler 50 example_get example_world =
     Some ((IntVal 23, None), example_world\<lparr>calls := [CallGet ''AuthSession'']\<rparr>) \<and>
   Authenticate default_handler profile_page 50 example_get example_world =
     Some (example_world\<lparr>resp := empty_response\<lparr>status := Some 200, body := ''profile''\<rparr>,
                          calls := [CallGet ''AuthSession'', CallNext]\<rparr>) \<and>
   AuthenticateRequest default_handler 50 example_get new_world =
     Some ((Nil, Some ErrNotAuthorized), new_world\<lparr>calls := [CallGet ''AuthSession'']\<rparr>) \<and>
   Authenticate default_handler profile_page 50 example_get new_world =
     Some (new_world\<lparr>resp := empty_response\<lparr>status := Some 401,
                                   body := ''Not Authorized'' @ [CHR 0x0A]\<rparr>,
                      calls := [CallGet ''AuthSession'', CallNotAuthorizedHandler]\<rparr>) \<and>
   NewHandler (Some example_check) [store_option example_store] = Inr default_handler"
proof -
  let ?h = "\<lambda>w (r::request). http_Error w (Error ErrNotAuthorized) StatusUnauthorized"
  have a1: "AuthenticateRequest default_handler 50 example_get example_world =
     Some ((IntVal 23, None), example_world\<lparr>calls := [CallGet ''AuthSession'']\<rparr>)"
    by (simp add: AuthenticateRequest_def ex_defs3)
  have a2: "AuthenticateRequest default_handler 50 example_get new_world =
     Some ((Nil, Some ErrNotAuthorized), new_world\<lparr>calls := [CallGet ''AuthSession'']\<rparr>)"
    by (simp add: AuthenticateRequest_def ex_defs3)
  have h: "notAuthorizedHandler default_handler = Some ?h"
    by (simp add: default_handler_def)
  have n: "NewHandler (Some example_check) [store_option example_store] = Inr default_handler"
    by (simp add: NewHandler_def Let_def store_option_def zero_Handler_def default_handler_def
        defaultSessionName_def)
  have r: "run_options [store_option example_store] (zero_Handler\<lparr>auther := Some example_check\<rparr>) =
      Inr (zero_Handler\<lparr>auther := Some example_check, store := Some example_store\<rparr>)"
    by (simp add: store_option_def)
  show ?thesis
    using Authenticate_gate [OF a1 h, where ?next = profile_page and a = "Some example_check"
        and options = "[store_option example_store]"
        and ?ah0.0 = "zero_Handler\<lparr>auther := Some example_check, store := Some example_store\<rparr>"
        and w = empty_response]
      Authenticate_gate [OF a2 h, where ?next = profile_page]
      a1 a2 n r
    by (simp add: ex_defs3)
qed

subsection \<open>Authentication does not change the session\<close>

text \<open>
  Claim C8. If \<open>AuthenticateRequest\<close> returns an identity, then the heap and the
  response are as before, the only call was \<open>store.Get\<close>, the session and its expiry
  are unchanged, and a second call at any time up to the expiry returns the same
  identity. No call of \<open>AuthenticateRequest\<close>, whatever it returns, changes the heap
  or the response.
\<close>

theorem AuthenticateRequest_idempotent:
  assumes "store ah = Some st"
    and "AuthenticateRequest ah t1 r wd = Some ((ident, None), wd1)"
  shows "heap wd1 = heap wd \<and> resp wd1 = resp wd \<and>
         calls wd1 = calls wd @ [CallGet (sessionName ah)] \<and>
         (\<exists>p s tout. Get st r (sessionName ah) = Inr p \<and> heap wd p = Some s \<and>
            heap wd1 p = Some s \<and> Values s userKey = Some ident \<and>
            Values s userTimeout = Some (TimeVal tout) \<and> t1 \<le> tout \<and>
            (\<forall>t2. t2 \<le> tout \<longrightarrow>
               AuthenticateRequest ah t2 r wd1 =
                 Some ((ident, None),
                       wd1\<lparr>calls := calls wd1 @ [CallGet (sessionName ah)]\<rparr>))) \<and>
         (\<forall>t res wd'. AuthenticateRequest ah t r wd = Some (res, wd') \<longrightarrow>
            heap wd' = heap wd \<and> resp wd' = resp wd)"
proof -
  have w1: "wd1 = wd\<lparr>calls := calls wd @ [CallGet (sessionName ah)]\<rparr>"
    using assms(2) by (rule AuthenticateRequest_world)
  obtain p s tout where g: "Get st r (sessionName ah) = Inr p" and h: "heap wd p = Some s"
    and n: "\<not> IsNew s" and u: "Values s userKey = Some ident"
    and e: "Values s userTimeout = Some (TimeVal tout)" and a: "\<not> After t1 tout"
    using AuthenticateRequest_accepts [OF assms] by blast
  have again: "AuthenticateRequest ah t2 r wd1 =
      Some ((ident, None), wd1\<lparr>calls := calls wd1 @ [CallGet (sessionName ah)]\<rparr>)"
    if "t2 \<le> tout" for t2
  proof -
    have "heap wd1 p = Some s"
      using h w1 by simp
    then show ?thesis
      using that AuthenticateRequest_loaded [OF assms(1) g _ n u e, of wd1 t2]
      by (simp add: After_def)
  qed
  have frame: "heap wd' = heap wd \<and> resp wd' = resp wd"
    if "AuthenticateRequest ah t r wd = Some (res, wd')" for t res wd'
    using AuthenticateRequest_world [OF that] by simp
  show ?thesis
    using w1 g h u e a again frame by (auto simp: After_def)
qed

theorem AuthenticateRequest_idempotent_witness:
  "AuthenticateRequest example_handler 50 example_get example_world =
     Some ((IntVal 23, None), example_world\<lparr>calls := [CallGet ''AuthSession'']\<rparr>) \<and>
   AuthenticateRequest example_handler 100 example_get
       (example_world\<lparr>calls := [CallGet ''AuthSession'']\<rparr>) =
     Some ((IntVal 23, None),
           example_world\<lparr>calls := [CallGet ''AuthSession'', CallGet ''AuthSession'']\<rparr>) \<and>
   heap (example_world\<lparr>calls := [CallGet ''AuthSession'', CallGet ''AuthSession'']\<rparr>) 0 =
     Some example_session \<and>
   Values example_session userTimeout = Some (TimeVal 100)"
proof -
  have st: "store example_handler = Some example_store"
    by (simp add: ex_defs2)
  have first: "AuthenticateRequest example_handler 50 example_get example_world =
     Some ((IntVal 23, None), example_world\<lparr>calls := [CallGet ''AuthSession'']\<rparr>)"
    by (simp add: AuthenticateRequest_def ex_defs2)
  from AuthenticateRequest_idempotent [OF st first]
  obtain p s tout where "Get example_store example_get (sessionName example_handler) = Inr p"
    and "heap example_world p = Some s"
    and "Values s userTimeout = Some (TimeVal tout)"
    and "\<forall>t2. t2 \<le> tout \<longrightarrow>
           AuthenticateRequest example_handler t2 example_get
               (example_world\<lparr>calls := [CallGet ''AuthSession'']\<rparr>) =
             Some ((IntVal 23, None),
                   example_world\<lparr>calls := [CallGet ''AuthSession''],
                     calls := calls (example_world\<lparr>calls := [CallGet ''AuthSession'']\<rparr>) @
                       [CallGet (sessionName example_handler)]\<rparr>)"
    by auto
  then have "p = 0" and "s = example_session" and "tout = 100"
    and "AuthenticateRequest example_handler 100 example_get
               (example_world\<lparr>calls := [CallGet ''AuthSession'']\<rparr>) =
             Some ((IntVal 23, None),
                   example_world\<lparr>calls := [CallGet ''AuthSession''],
                     calls := calls (example_world\<lparr>calls := [CallGet ''AuthSession'']\<rparr>) @
                       [CallGet (sessionName example_handler)]\<rparr>)"
    by (auto simp: ex_defs2)
  then show ?thesis
    using first by (simp add: ex_defs2)
qed

subsection \<open>Logout keeps the identity\<close>




subsection \<open>A nil identity\<close>

text \<open>
  Claim C10. If \<open>Check\<close> returns \<open>(nil, nil)\<close>, \<open>Authorize\<close> takes the success path
  and saves a session with nil under the identity key. On a later request, before
  the expiry: if the loaded session carries the saved values, \<open>AuthenticateRequest\<close>
  returns \<open>(nil, nil)\<close> and \<open>Authenticate\<close> calls the downstream handler, exactly as
  with any other value \<open>v\<close> under the identity key, where the answer is \<open>(v, nil)\<close>;
  if the identity key is absent from the otherwise equal values, the answer is
  \<open>ErrNotAuthorized\<close> and \<open>Authenticate\<close> calls the not-authorized handler. The test
  is the presence of the key, not the value under it.
\<close>

theorem nil_identity_authenticates:
  assumes "store ah = Some st" and "auther ah = Some check"
    and "notAuthorizedHandler ah = Some h"
    and "Method r = ''POST''" and "ParseForm r = Inr form"
    and "Form_Get form ''user'' = user" and "Form_Get form ''pass'' = pass"
    and "user \<noteq> []" and "pass \<noteq> []"
    and "check user pass = (Nil, None)"
    and "Get st r (sessionName ah) = Inr p" and "heap wd p = Some s"
    and "s1 = s\<lparr>Values := (Values s)(userKey \<mapsto> Nil,
                   userTimeout \<mapsto> TimeVal (Add t0 (lifetime ah)))\<rparr>"
    and "Save st r (resp wd) s1 = (None, w')"
    and "Get st r2 (sessionName ah) = Inr p2" and "heap wd2 p2 = Some s2"
    and "\<not> IsNew s2"
    and "t < t0 + sint (lifetime ah)"
  shows "Authorize http_Redirect ah t0 r wd =
           Some (wd\<lparr>heap := (heap wd)(p \<mapsto> s1),
                    resp := http_Redirect w' r (redirLanding ah) 303,
                    calls := calls wd @ [CallCheck user pass, CallGet (sessionName ah),
                      CallSave s1]\<rparr>) \<and>
         Values s1 userKey = Some Nil \<and>
         (Values s2 = Values s1 \<longrightarrow>
            AuthenticateRequest ah t r2 wd2 =
              Some ((Nil, None), wd2\<lparr>calls := calls wd2 @ [CallGet (sessionName ah)]\<rparr>) \<and>
            Authenticate ah next t r2 wd2 =
              Some (wd2\<lparr>resp := next (resp wd2) r2,
                        calls := calls wd2 @ [CallGet (sessionName ah), CallNext]\<rparr>)) \<and>
         (Values s2 = (Values s1)(userKey \<mapsto> v) \<longrightarrow>
            AuthenticateRequest ah t r2 wd2 =
              Some ((v, None), wd2\<lparr>calls := calls wd2 @ [CallGet (sessionName ah)]\<rparr>) \<and>
            Authenticate ah next t r2 wd2 =
              Some (wd2\<lparr>resp := next (resp wd2) r2,
                        calls := calls wd2 @ [CallGet (sessionName ah), CallNext]\<rparr>)) \<and>
         (Values s2 = (Values s1)(userKey := None) \<longrightarrow>
            AuthenticateRequest ah t r2 wd2 =
              Some ((Nil, Some ErrNotAuthorized),
                    wd2\<lparr>calls := calls wd2 @ [CallGet (sessionName ah)]\<rparr>) \<and>
            Authenticate ah next t r2 wd2 =
              Some (wd2\<lparr>resp := h (resp wd2) r2,
                        calls := calls wd2 @ [CallGet (sessionName ah),
                          CallNotAuthorizedHandler]\<rparr>))"
proof -
  have login: "Authorize http_Redirect ah t0 r wd =
           Some (wd\<lparr>heap := (heap wd)(p \<mapsto> s1),
                    resp := http_Redirect w' r (redirLanding ah) 303,
                    calls := calls wd @ [CallCheck user pass, CallGet (sessionName ah),
                      CallSave s1]\<rparr>)"
    using Authorize_Get_ok [OF assms(4-9) assms(2) assms(10) assms(1) assms(11-14)]
    by (simp add: StatusSeeOther_def)
  have key: "Values s1 userKey = Some Nil"
    using assms(13) by (simp add: userKey_def userTimeout_def)
  have expiry: "Values s1 userTimeout = Some (TimeVal (Add t0 (lifetime ah)))"
    using assms(13) by simp
  have before: "\<not> After t (Add t0 (lifetime ah))"
    using assms(18) by (simp add: After_def Add_def)
  have present: "AuthenticateRequest ah t r2 wd2 =
        Some ((x, None), wd2\<lparr>calls := calls wd2 @ [CallGet (sessionName ah)]\<rparr>) \<and>
      Authenticate ah next t r2 wd2 =
        Some (wd2\<lparr>resp := next (resp wd2) r2,
                  calls := calls wd2 @ [CallGet (sessionName ah), CallNext]\<rparr>)"
    if "Values s2 userKey = Some x" and "Values s2 userTimeout = Values s1 userTimeout" for x
  proof -
    have a: "AuthenticateRequest ah t r2 wd2 =
        Some ((x, None), wd2\<lparr>calls := calls wd2 @ [CallGet (sessionName ah)]\<rparr>)"
      using AuthenticateRequest_loaded [OF assms(1) assms(15-17) that(1), of _ t]
        that(2) expiry before
      by simp
    then show ?thesis
      by (simp add: Authenticate_def)
  qed
  have absent: "AuthenticateRequest ah t r2 wd2 =
        Some ((Nil, Some ErrNotAuthorized),
              wd2\<lparr>calls := calls wd2 @ [CallGet (sessionName ah)]\<rparr>) \<and>
      Authenticate ah next t r2 wd2 =
        Some (wd2\<lparr>resp := h (resp wd2) r2,
                  calls := calls wd2 @ [CallGet (sessionName ah), CallNotAuthorizedHandler]\<rparr>)"
    if "Values s2 userKey = None"
  proof -
    have a: "AuthenticateRequest ah t r2 wd2 =
        Some ((Nil, Some ErrNotAuthorized),
              wd2\<lparr>calls := calls wd2 @ [CallGet (sessionName ah)]\<rparr>)"
      using AuthenticateRequest_no_identity [OF assms(1) assms(15,16) that] .
    then show ?thesis
      using assms(3) by (simp add: Authenticate_def)
  qed
  have c1: "Values s2 = Values s1 \<longrightarrow>
            AuthenticateRequest ah t r2 wd2 =
              Some ((Nil, None), wd2\<lparr>calls := calls wd2 @ [CallGet (sessionName ah)]\<rparr>) \<and>
            Authenticate ah next t r2 wd2 =
              Some (wd2\<lparr>resp := next (resp wd2) r2,
                        calls := calls wd2 @ [CallGet (sessionName ah), CallNext]\<rparr>)"
    using present [of Nil] key by simp
  have c2: "Values s2 = (Values s1)(userKey \<mapsto> v) \<longrightarrow>
            AuthenticateRequest ah t r2 wd2 =
              Some ((v, None), wd2\<lparr>calls := calls wd2 @ [CallGet (sessionName ah)]\<rparr>) \<and>
            Authenticate ah next t r2 wd2 =
              Some (wd2\<lparr>resp := next (resp wd2) r2,
                        calls := calls wd2 @ [CallGet (sessionName ah), CallNext]\<rparr>)"
    using present [of v] by (simp add: userKey_def userTimeout_def)
  have c3: "Values s2 = (Values s1)(userKey := None) \<longrightarrow>
            AuthenticateRequest ah t r2 wd2 =
              Some ((Nil, Some ErrNotAuthorized),
                    wd2\<lparr>calls := calls wd2 @ [CallGet (sessionName ah)]\<rparr>) \<and>
            Authenticate ah next t r2 wd2 =
              Some (wd2\<lparr>resp := h (resp wd2) r2,
                        calls := calls wd2 @ [CallGet (sessionName ah),
                          CallNotAuthorizedHandler]\<rparr>)"
    using absent by simp
  show ?thesis
    using login key c1 c2 c3 by blast
qed

theorem nil_identity_authenticates_witness:
  "nil_check ''testUser'' ''testPassw'' = (Nil, None) \<and>
   Authorize example_Redirect (example_handler\<lparr>auther := Some nil_check\<rparr>) 1000 example_post
       new_world =
     Some (new_world\<lparr>heap := [0 \<mapsto> nil_session],
                      resp := empty_response\<lparr>status := Some 303,
                                   location := Some ''/landingRedir'',
                                   set_cookie := [''AuthSession'']\<rparr>,
                      calls := [CallCheck ''testUser'' ''testPassw'', CallGet ''AuthSession'',
                                CallSave nil_session]\<rparr>) \<and>
   Values nil_session userKey = Some Nil \<and>
   AuthenticateRequest (example_handler\<lparr>auther := Some nil_check\<rparr>) 2000 example_get
       (new_world\<lparr>heap := [0 \<mapsto> nil_session\<lparr>IsNew := False\<rparr>]\<rparr>) =
     Some ((Nil, None),
           new_world\<lparr>heap := [0 \<mapsto> nil_session\<lparr>IsNew := False\<rparr>],
                     calls := [CallGet ''AuthSession'']\<rparr>) \<and>
   Authenticate (example_handler\<lparr>auther := Some nil_check\<rparr>) profile_page 2000 example_get
       (new_world\<lparr>heap := [0 \<mapsto> nil_session\<lparr>IsNew := False\<rparr>]\<rparr>) =
     Some (new_world\<lparr>heap := [0 \<mapsto> nil_session\<lparr>IsNew := False\<rparr>],
                     resp := empty_response\<lparr>status := Some 200, body := ''profile''\<rparr>,
                     calls := [CallGet ''AuthSession'', CallNext]\<rparr>) \<and>
   AuthenticateRequest (example_handler\<lparr>auther := Some nil_check\<rparr>) 2000 example_get
       (new_world\<lparr>heap := [0 \<mapsto> nil_session\<lparr>IsNew := False,
          Values := (Values nil_session)(userKey \<mapsto> IntVal 23)\<rparr>]\<rparr>) =
     Some ((IntVal 23, None),
           new_world\<lparr>heap := [0 \<mapsto> nil_session\<lparr>IsNew := False,
                       Values := (Values nil_session)(userKey \<mapsto> IntVal 23)\<rparr>],
                     calls := [CallGet ''AuthSession'']\<rparr>) \<and>
   AuthenticateRequest (example_handler\<lparr>auther := Some nil_check\<rparr>) 2000 example_get
       (new_world\<lparr>heap := [0 \<mapsto> nil_session\<lparr>IsNew := False,
          Values := (Values nil_session)(userKey := None)\<rparr>]\<rparr>) =
     Some ((Nil, Some ErrNotAuthorized),
           new_world\<lparr>heap := [0 \<mapsto> nil_session\<lparr>IsNew := False,
                       Values := (Values nil_session)(userKey := None)\<rparr>],
                     calls := [CallGet ''AuthSession'']\<rparr>) \<and>
   Authenticate (example_handler\<lparr>auther := Some nil_check\<rparr>) profile_page 2000 example_get
       (new_world\<lparr>heap := [0 \<mapsto> nil_session\<lparr>IsNew := False,
          Values := (Values nil_session)(userKey := None)\<rparr>]\<rparr>) =
     Some (new_world\<lparr>heap := [0 \<mapsto> nil_session\<lparr>IsNew := False,
                       Values := (Values nil_session)(userKey := None)\<rparr>],
                     resp := empty_response\<lparr>status := Some 401,
                                  body := ''Not Authorized'' @ [CHR 0x0A]\<rparr>,
                     calls := [CallGet ''AuthSession'', CallNotAuthorizedHandler]\<rparr>)"
proof -
  let ?ah = "example_handler\<lparr>auther := Some nil_check\<rparr>"
  let ?h = "\<lambda>w (r::request). http_Error w (Error ErrNotAuthorized) StatusUnauthorized"
  let ?form = "[''user'' \<mapsto> [''testUser''], ''pass'' \<mapsto> [''testPassw'']]"
  let ?w = "empty_response\<lparr>set_cookie := [''AuthSession'']\<rparr>"
  note inst = nil_identity_authenticates [where http_Redirect = example_Redirect
      and ah = ?ah and st = example_store and check = nil_check and h = ?h
      and r = example_post and form = ?form
      and user = "''testUser''" and pass = "''testPassw''"
      and p = 0 and wd = new_world and s = new_session and ?s1.0 = nil_session
      and ?t0.0 = 1000 and w' = ?w and ?r2.0 = example_get and ?p2.0 = 0 and t = 2000
      and ?next = profile_page]
  have a: "Authorize example_Redirect ?ah 1000 example_post new_world =
     Some (new_world\<lparr>heap := [0 \<mapsto> nil_session],
                      resp := empty_response\<lparr>status := Some 303,
                                   location := Some ''/landingRedir'',
                                   set_cookie := [''AuthSession'']\<rparr>,
                      calls := [CallCheck ''testUser'' ''testPassw'', CallGet ''AuthSession'',
                                CallSave nil_session]\<rparr>) \<and>
   Values nil_session userKey = Some Nil \<and>
   AuthenticateRequest ?ah 2000 example_get
       (new_world\<lparr>heap := [0 \<mapsto> nil_session\<lparr>IsNew := False\<rparr>]\<rparr>) =
     Some ((Nil, None),
           new_world\<lparr>heap := [0 \<mapsto> nil_session\<lparr>IsNew := False\<rparr>],
                     calls := [CallGet ''AuthSession'']\<rparr>) \<and>
   Authenticate ?ah profile_page 2000 example_get
       (new_world\<lparr>heap := [0 \<mapsto> nil_session\<lparr>IsNew := False\<rparr>]\<rparr>) =
     Some (new_world\<lparr>heap := [0 \<mapsto> nil_session\<lparr>IsNew := False\<rparr>],
                     resp := empty_response\<lparr>status := Some 200, body := ''profile''\<rparr>,
                     calls := [CallGet ''AuthSession'', CallNext]\<rparr>)"
    using inst [where ?wd2.0 = "new_world\<lparr>heap := [0 \<mapsto> nil_session\<lparr>IsNew := False\<rparr>]\<rparr>"
        and ?s2.0 = "nil_session\<lparr>IsNew := False\<rparr>" and v = Nil]
    by (simp add: ex_defs4)
  have b: "AuthenticateRequest ?ah 2000 example_get
       (new_world\<lparr>heap := [0 \<mapsto> nil_session\<lparr>IsNew := False,
          Values := (Values nil_session)(userKey \<mapsto> IntVal 23)\<rparr>]\<rparr>) =
     Some ((IntVal 23, None),
           new_world\<lparr>heap := [0 \<mapsto> nil_session\<lparr>IsNew := False,
                       Values := (Values nil_session)(userKey \<mapsto> IntVal 23)\<rparr>],
                     calls := [CallGet ''AuthSession'']\<rparr>)"
    using inst [where ?wd2.0 = "new_world\<lparr>heap := [0 \<mapsto> nil_session\<lparr>IsNew := False,
          Values := (Values nil_session)(userKey \<mapsto> IntVal 23)\<rparr>]\<rparr>"
        and ?s2.0 = "nil_session\<lparr>IsNew := False,
          Values := (Values nil_session)(userKey \<mapsto> IntVal 23)\<rparr>" and v = "IntVal 23",
        THEN conjunct2, THEN conjunct2, THEN conjunct2, THEN conjunct1]
    by (simp add: ex_defs4)
  have c: "AuthenticateRequest ?ah 2000 example_get
       (new_world\<lparr>heap := [0 \<mapsto> nil_session\<lparr>IsNew := False,
          Values := (Values nil_session)(userKey := None)\<rparr>]\<rparr>) =
     Some ((Nil, Some ErrNotAuthorized),
           new_world\<lparr>heap := [0 \<mapsto> nil_session\<lparr>IsNew := False,
                       Values := (Values nil_session)(userKey := None)\<rparr>],
                     calls := [CallGet ''AuthSession'']\<rparr>) \<and>
   Authenticate ?ah profile_page 2000 example_get
       (new_world\<lparr>heap := [0 \<mapsto> nil_session\<lparr>IsNew := False,
          Values := (Values nil_session)(userKey := None)\<rparr>]\<rparr>) =
     Some (new_world\<lparr>heap := [0 \<mapsto> nil_session\<lparr>IsNew := False,
                       Values := (Values nil_session)(userKey := None)\<rparr>],
                     resp := empty_response\<lparr>status := Some 401,
                                  body := ''Not Authorized'' @ [CHR 0x0A]\<rparr>,
                     calls := [CallGet ''AuthSession'', CallNotAuthorizedHandler]\<rparr>)"
    using inst [where ?wd2.0 = "new_world\<lparr>heap := [0 \<mapsto> nil_session\<lparr>IsNew := False,
          Values := (Values nil_session)(userKey := None)\<rparr>]\<rparr>"
        and ?s2.0 = "nil_session\<lparr>IsNew := False,
          Values := (Values nil_session)(userKey := None)\<rparr>" and v = Nil,
        THEN conjunct2, THEN conjunct2, THEN conjunct2, THEN conjunct2]
    by (simp add: ex_defs4)
  have "nil_check ''testUser'' ''testPassw'' = (Nil, None)"
    by (simp add: nil_check_def)
  with a b c show ?thesis
    by simp
qed

end
